theory Spec2Isabelle
  imports Complex_Main "HOL-Library.Char_ord" "HOL-Library.List_Lexorder"
begin

section \<open>Data model\<close>

text \<open>
  The tables are the ones the gameplay router reads and writes through
  \<^verbatim>\<open>ctx.prisma\<close> (\<^verbatim>\<open>footage\<close>, \<^verbatim>\<open>footageVotes\<close>, \<^verbatim>\<open>clip\<close>, \<^verbatim>\<open>user\<close>); the
  constraints (\<^verbatim>\<open>@id\<close>, \<^verbatim>\<open>@unique\<close>, the relations and their \<^verbatim>\<open>onDelete\<close> actions) are
  those of the Prisma schema. Timestamps are left out: no operation reads them.
  A table is the list of its rows, in insertion order.
\<close>

datatype GameplayType = VAL | CSG | TF2 | APE | COD | R6S

datatype Roles = USER | TRUSTED | MOD | ADMIN

record User =
  uId :: string
  uName :: "string option"
  uRole :: Roles
  uBlacklisted :: bool

record Footage =
  fId :: string
  userId :: string
  youtubeUrl :: string
  videoFormat :: int
  footageType :: GameplayType
  isAnalyzed :: bool
  isParsed :: bool

record FootageVotes =
  vId :: string
  footageId :: string
  voterId :: string
  isGame :: bool
  actualGame :: GameplayType

record Clip =
  cId :: string
  clipFootageId :: string

record DB =
  user :: "User list"
  footage :: "Footage list"
  footageVotes :: "FootageVotes list"
  clip :: "Clip list"

text \<open>The referential actions of the schema's relations.\<close>

datatype ReferentialAction = Cascade | Restrict

definition GameplayVotes_onDelete :: ReferentialAction where
  \<comment> \<open>\<^verbatim>\<open>gameplay Gameplay @relation("gameplay", ..., onDelete: Cascade)\<close>\<close>
  "GameplayVotes_onDelete = Cascade"

definition Clip_onDelete :: ReferentialAction where
  \<comment> \<open>\<^verbatim>\<open>gameplay Gameplay @relation(fields: [gameplayId], references: [id])\<close>: no
      \<^verbatim>\<open>onDelete\<close> is given, and Prisma's default for a required relation is Restrict\<close>
  "Clip_onDelete = Restrict"

section \<open>Errors, session and the world\<close>

datatype Code = NOT_FOUND | UNAUTHORIZED | BAD_REQUEST | INTERNAL_SERVER_ERROR

datatype PrismaErr = UniqueConstraint | ForeignKeyConstraint | RecordNotFound | ValidationError

datatype FsErr = EEXIST | ENOENT | ENOTDIR | CopyFailed

text \<open>
  Everything the handlers throw: a \<^verbatim>\<open>TRPCError\<close> with its code, message and cause, an
  HTTP error of the REST endpoints (\<^verbatim>\<open>createHttpError(status, message)\<close>), and the errors
  of the collaborators, which the handlers let through or wrap.
\<close>

datatype Error =
    TRPCError Code string "Error option"
  | HttpError nat string
  | PrismaError PrismaErr
  | YtdlError
  | FsError FsErr

record SessionUser =
  sId :: string
  sRole :: Roles
  sBlacklisted :: bool

record Ctx =
  session :: SessionUser

datatype Node = File | Dir

type_synonym FS = "(string \<times> Node) list"

datatype YtdlCall = GetInfo string | Download string

text \<open>
  The state the handlers act on: the database, the file system (path to node), the
  remote calls made through ytdl so far (newest first), the analyzer processes spawned
  and not yet exited (footage id, video file), and the number of identifiers drawn
  from \<^verbatim>\<open>cuid()\<close>. The generator itself is a parameter \<open>cuid\<close> of the operations: the
  \<open>n\<close>-th identifier drawn is \<open>cuid n\<close>.
\<close>

record World =
  prisma :: DB
  fs :: FS
  ytdlCalls :: "YtdlCall list"
  spawned :: "(string \<times> string) list"
  cuids :: nat

record Format =
  itag :: int

section \<open>Permission requirements\<close>

text \<open>
  Modelled from the spec: the module \<^verbatim>\<open>@server/utils/hasPerms\<close> (\<^verbatim>\<open>hasPerms\<close>, \<^verbatim>\<open>Perms\<close>,
  \<^verbatim>\<open>Roles\<close>) is not among the sources. The requirement is the spec's tagged variant;
  \<^verbatim>\<open>Perms.roleMod\<close> of the call sites is \<open>roleAtLeast MOD\<close>.
\<close>

datatype Perms = isOwner | roleAtLeast Roles

abbreviation roleMod :: Perms where
  "roleMod \<equiv> roleAtLeast MOD"

text \<open>
  The handlers take the permission engine as their first argument, named as the
  function they call. Its arguments are the fields of the options object in the order
  the call sites write them: \<^verbatim>\<open>userId\<close>, \<^verbatim>\<open>userRole\<close>, \<^verbatim>\<open>itemOwnerId\<close> (absent in
  \<^verbatim>\<open>create\<close>), \<^verbatim>\<open>requiredPerms\<close>, \<^verbatim>\<open>blacklisted\<close>.
\<close>

type_synonym PermsEngine = "string \<Rightarrow> Roles \<Rightarrow> string option \<Rightarrow> Perms \<Rightarrow> bool \<Rightarrow> bool"

section \<open>The Prisma client\<close>

definition footage_findUnique_id :: "DB \<Rightarrow> string \<Rightarrow> Footage option" where
  "footage_findUnique_id db i = find (\<lambda>g. fId g = i) (footage db)"

definition footage_findUnique_youtubeUrl :: "DB \<Rightarrow> string \<Rightarrow> Footage option" where
  "footage_findUnique_youtubeUrl db url = find (\<lambda>g. youtubeUrl g = url) (footage db)"

definition user_findUnique :: "DB \<Rightarrow> string \<Rightarrow> User option" where
  "user_findUnique db i = find (\<lambda>u. uId u = i) (user db)"

text \<open>
  \<^verbatim>\<open>footage.create\<close>: the row's id is the schema's \<^verbatim>\<open>@default(cuid())\<close>, the flags take
  their defaults. The insert is refused when the id or the url is taken (\<^verbatim>\<open>@id\<close>,
  \<^verbatim>\<open>@unique\<close>) or the owner is no row of \<^verbatim>\<open>user\<close> (the relation).
\<close>

definition prisma_footage_create ::
  "(nat \<Rightarrow> string) \<Rightarrow> string \<Rightarrow> string \<Rightarrow> int \<Rightarrow> GameplayType \<Rightarrow> World \<Rightarrow> (Error + Footage) \<times> World" where
  "prisma_footage_create cuid uid url fmt ty w =
     (let db = prisma w;
          row = \<lparr>fId = cuid (cuids w), userId = uid, youtubeUrl = url, videoFormat = fmt,
                 footageType = ty, isAnalyzed = False, isParsed = False\<rparr>;
          w1 = w\<lparr>cuids := Suc (cuids w)\<rparr>
      in if find (\<lambda>g. fId g = fId row \<or> youtubeUrl g = url) (footage db) \<noteq> None
         then (Inl (PrismaError UniqueConstraint), w1)
         else if user_findUnique db uid = None
         then (Inl (PrismaError ForeignKeyConstraint), w1)
         else (Inr row, w1\<lparr>prisma := db\<lparr>footage := footage db @ [row]\<rparr>\<rparr>))"

definition prisma_footage_update ::
  "string \<Rightarrow> bool \<Rightarrow> GameplayType \<Rightarrow> World \<Rightarrow> (Error + Footage) \<times> World" where
  "prisma_footage_update i analyzed ty w =
     (let db = prisma w in
      case footage_findUnique_id db i of
        None \<Rightarrow> (Inl (PrismaError RecordNotFound), w)
      | Some g \<Rightarrow>
          (Inr (g\<lparr>isAnalyzed := analyzed, footageType := ty\<rparr>),
           w\<lparr>prisma := db\<lparr>footage :=
                map (\<lambda>r. if fId r = i then r\<lparr>isAnalyzed := analyzed, footageType := ty\<rparr> else r)
                  (footage db)\<rparr>\<rparr>))"

text \<open>
  \<^verbatim>\<open>footage.delete\<close>: a row that a relation with action Restrict still references is
  not deleted; a relation with action Cascade loses the rows that reference it.
\<close>

definition referencing :: "ReferentialAction \<Rightarrow> ('r \<Rightarrow> string) \<Rightarrow> string \<Rightarrow> 'r list \<Rightarrow> (Error + 'r list)" where
  "referencing action key i rows =
     (case action of
        Cascade \<Rightarrow> Inr (filter (\<lambda>r. key r \<noteq> i) rows)
      | Restrict \<Rightarrow> (if find (\<lambda>r. key r = i) rows = None then Inr rows
                      else Inl (PrismaError ForeignKeyConstraint)))"

definition prisma_footage_delete :: "string \<Rightarrow> World \<Rightarrow> (Error + Footage) \<times> World" where
  "prisma_footage_delete i w =
     (let db = prisma w in
      case footage_findUnique_id db i of
        None \<Rightarrow> (Inl (PrismaError RecordNotFound), w)
      | Some g \<Rightarrow>
          (case referencing Clip_onDelete clipFootageId i (clip db) of
             Inl e \<Rightarrow> (Inl e, w)
           | Inr clips \<Rightarrow>
               (case referencing GameplayVotes_onDelete footageId i (footageVotes db) of
                  Inl e \<Rightarrow> (Inl e, w)
                | Inr votes \<Rightarrow>
                    (Inr g, w\<lparr>prisma := db\<lparr>footage := filter (\<lambda>r. fId r \<noteq> i) (footage db),
                                            footageVotes := votes, clip := clips\<rparr>\<rparr>))))"

text \<open>
  \<^verbatim>\<open>footageVotes.create\<close>: a fresh id; the vote must reference a row of \<^verbatim>\<open>footage\<close> and a
  row of \<^verbatim>\<open>user\<close> (the two relations of the model).
\<close>

definition prisma_footageVotes_create ::
  "(nat \<Rightarrow> string) \<Rightarrow> string \<Rightarrow> bool \<Rightarrow> GameplayType \<Rightarrow> string \<Rightarrow> World \<Rightarrow> (Error + FootageVotes) \<times> World" where
  "prisma_footageVotes_create cuid fid game actual uid w =
     (let db = prisma w;
          row = \<lparr>vId = cuid (cuids w), footageId = fid, voterId = uid, isGame = game,
                 actualGame = actual\<rparr>;
          w1 = w\<lparr>cuids := Suc (cuids w)\<rparr>
      in if find (\<lambda>v. vId v = vId row) (footageVotes db) \<noteq> None
         then (Inl (PrismaError UniqueConstraint), w1)
         else if footage_findUnique_id db fid = None \<or> user_findUnique db uid = None
         then (Inl (PrismaError ForeignKeyConstraint), w1)
         else (Inr row, w1\<lparr>prisma := db\<lparr>footageVotes := footageVotes db @ [row]\<rparr>\<rparr>))"

text \<open>
  \<^verbatim>\<open>findMany\<close> with \<^verbatim>\<open>take\<close> and \<^verbatim>\<open>skip\<close>: a negative \<^verbatim>\<open>skip\<close> is a validation error.
\<close>

definition findMany_page :: "int \<Rightarrow> int \<Rightarrow> 'r list \<Rightarrow> Error + 'r list" where
  "findMany_page takeValue skipValue rows =
     (if skipValue < 0 then Inl (PrismaError ValidationError)
      else Inr (take (nat takeValue) (drop (nat skipValue) rows)))"

text \<open>
  \<^verbatim>\<open>orderBy: { [field]: direction }\<close> over the string columns of \<^verbatim>\<open>footage\<close>; strings are
  compared bytewise. A key or direction that is \<^verbatim>\<open>undefined\<close>, or no column, is a
  validation error.
\<close>

definition orderColumn :: "string \<Rightarrow> (Footage \<Rightarrow> string) option" where
  "orderColumn field =
     (if field = ''userId'' then Some userId
      else if field = ''id'' then Some fId
      else if field = ''youtubeUrl'' then Some youtubeUrl
      else None)"

definition footage_orderBy :: "string option \<Rightarrow> string option \<Rightarrow> Footage list \<Rightarrow> Error + Footage list" where
  "footage_orderBy orderBy orderDir rows =
     (case (orderBy, orderDir) of
        (Some field, Some dir) \<Rightarrow>
          (case orderColumn field of
             None \<Rightarrow> Inl (PrismaError ValidationError)
           | Some col \<Rightarrow>
               if dir = ''asc'' then Inr (sort_key col rows)
               else if dir = ''desc'' then Inr (rev (sort_key col rows))
               else Inl (PrismaError ValidationError))
      | _ \<Rightarrow> Inl (PrismaError ValidationError))"

section \<open>The gameplay router\<close>

text \<open>
  Each procedure is its handler: from the context, the input and the world to what it
  returns or throws (\<open>Inl\<close>) and the world it leaves. The parsing of inputs and outputs
  by the zod schemas is the framework's and is not modelled.
\<close>

definition get :: "PermsEngine \<Rightarrow> Ctx \<Rightarrow> string \<Rightarrow> World \<Rightarrow> (Error + Footage) \<times> World" where
  "get hasPerms ctx gameplayId w =
     (let gameplay = footage_findUnique_id (prisma w) gameplayId in
      if gameplay = None \<or>
         \<not> hasPerms (sId (session ctx)) USER (Some (userId (the gameplay))) isOwner
             (sBlacklisted (session ctx))
      then (Inl (TRPCError NOT_FOUND ''Could not find that requested gameplay'' None), w)
      else (Inr (the gameplay), w))"

definition getMany ::
  "Ctx \<Rightarrow> int \<Rightarrow> GameplayType option \<Rightarrow> World \<Rightarrow> (Error + (Footage \<times> nat) list) \<times> World" where
  "getMany ctx page filterGames w =
     (let takeValue = 10;
          skipValue = page * 10 - 10;
          rows = (case filterGames of
                    None \<Rightarrow> footage (prisma w)
                  | Some t \<Rightarrow> filter (\<lambda>g. footageType g = t) (footage (prisma w)));
          gameplayCount = length rows
      in case findMany_page takeValue skipValue rows of
           Inl error \<Rightarrow>
             (Inl (TRPCError NOT_FOUND ''No footage with the inputs provided could be found.'' None), w)
         | Inr gameplays \<Rightarrow> (Inr (map (\<lambda>g. (g, gameplayCount)) gameplays), w))"

text \<open>
  The encoding \<^verbatim>\<open>create\<close> stores: \<^verbatim>\<open>defaultFormat\<close> is the format with itag 299, else the
  one with itag 298; \<^verbatim>\<open>lowFormat\<close> is 136 when a format with itag 136 exists.
\<close>

definition defaultFormat :: "Format list \<Rightarrow> Format option" where
  "defaultFormat formats =
     (case find (\<lambda>format. itag format = 299) formats of
        Some f \<Rightarrow> Some f
      | None \<Rightarrow> find (\<lambda>format. itag format = 298) formats)"

definition lowFormat :: "Format list \<Rightarrow> int option" where
  "lowFormat formats =
     (if find (\<lambda>format. itag format = 136) formats \<noteq> None then Some 136 else None)"

definition chosenFormat :: "Format list \<Rightarrow> int option" where
  \<comment> \<open>\<^verbatim>\<open>defaultFormat ? defaultFormat.itag : lowFormat\<close>\<close>
  "chosenFormat formats =
     (case defaultFormat formats of Some f \<Rightarrow> Some (itag f) | None \<Rightarrow> lowFormat formats)"

definition create ::
  "PermsEngine \<Rightarrow> (string \<Rightarrow> Error + Format list) \<Rightarrow> (nat \<Rightarrow> string) \<Rightarrow> Ctx \<Rightarrow> string \<Rightarrow> GameplayType
     \<Rightarrow> World \<Rightarrow> (Error + Footage) \<times> World" where
  "create hasPerms getInfo cuid ctx url gameplayType w =
     (if \<not> hasPerms (sId (session ctx)) USER None isOwner (sBlacklisted (session ctx))
      then (Inl (TRPCError UNAUTHORIZED [] None), w)
      else if footage_findUnique_youtubeUrl (prisma w) url \<noteq> None
      then (Inl (TRPCError BAD_REQUEST ''This youtube url has already been submitted.'' None), w)
      else
        (let w1 = w\<lparr>ytdlCalls := GetInfo url # ytdlCalls w\<rparr> in
         case getInfo url of
           Inl e \<Rightarrow> (Inl e, w1)
         | Inr formats \<Rightarrow>
             if defaultFormat formats = None \<and> lowFormat formats = None
             then (Inl (TRPCError BAD_REQUEST ''URL does not provide an acceptable video format.'' None), w1)
             else prisma_footage_create cuid (sId (session ctx)) url (the (chosenFormat formats))
                    gameplayType w1))"

datatype 'a Nullish = Undefined | Null | Value 'a

definition getUsers ::
  "PermsEngine \<Rightarrow> Ctx \<Rightarrow> string Nullish \<Rightarrow> World \<Rightarrow> (Error + Footage list) \<times> World" where
  "getUsers hasPerms ctx inputUserId w =
     (let uid = (case inputUserId of
                   Null \<Rightarrow> Some (sId (session ctx))
                 | Undefined \<Rightarrow> None
                 | Value s \<Rightarrow> Some s)
      in if \<not> hasPerms (sId (session ctx)) USER uid isOwner (sBlacklisted (session ctx))
         then (Inl (TRPCError UNAUTHORIZED [] None), w)
         else case uid of
           None \<Rightarrow> (Inl (PrismaError ValidationError), w)
         | Some i \<Rightarrow>
             (case user_findUnique (prisma w) i of
                None \<Rightarrow> (Inl (TRPCError NOT_FOUND ''No user found with the provided ID.'' None), w)
              | Some u \<Rightarrow> (Inr (filter (\<lambda>g. userId g = i) (footage (prisma w))), w)))"

definition getClips :: "PermsEngine \<Rightarrow> Ctx \<Rightarrow> string \<Rightarrow> World \<Rightarrow> (Error + Clip list) \<times> World" where
  "getClips hasPerms ctx gameplayId w =
     (case footage_findUnique_id (prisma w) gameplayId of
        None \<Rightarrow> (Inl (TRPCError NOT_FOUND ''Could not find that requested gameplay'' None), w)
      | Some gameplay \<Rightarrow>
          if \<not> hasPerms (sId (session ctx)) USER (Some (userId gameplay)) roleMod
                (sBlacklisted (session ctx))
          then (Inl (TRPCError UNAUTHORIZED [] None), w)
          else (Inr (filter (\<lambda>c. clipFootageId c = gameplayId) (clip (prisma w))), w))"

text \<open>
  \<^verbatim>\<open>update\<close> and \<^verbatim>\<open>delete\<close> run their whole body in a \<^verbatim>\<open>try\<close> whose \<^verbatim>\<open>catch\<close> rethrows
  whatever was thrown as an \<^verbatim>\<open>INTERNAL_SERVER_ERROR\<close> with the caught error as cause.
\<close>

definition catchAll :: "(Error + 'a) \<times> World \<Rightarrow> (Error + 'a) \<times> World" where
  "catchAll r =
     (case fst r of
        Inl error \<Rightarrow>
          (Inl (TRPCError INTERNAL_SERVER_ERROR ''An error occurred in the server'' (Some error)), snd r)
      | Inr v \<Rightarrow> r)"

definition update ::
  "PermsEngine \<Rightarrow> Ctx \<Rightarrow> string \<Rightarrow> GameplayType \<Rightarrow> bool \<Rightarrow> World \<Rightarrow> (Error + Footage) \<times> World" where
  "update hasPerms ctx gameplayId inputFootageType inputIsAnalyzed w =
     catchAll
       (case footage_findUnique_id (prisma w) gameplayId of
          None \<Rightarrow> (Inl (PrismaError RecordNotFound), w)
        | Some gameplay \<Rightarrow>
            (let requiredPerms = (if isAnalyzed gameplay = inputIsAnalyzed then isOwner else roleMod) in
             if \<not> hasPerms (sId (session ctx)) USER (Some (userId gameplay)) requiredPerms
                   (sBlacklisted (session ctx))
             then (Inl (TRPCError UNAUTHORIZED [] None), w)
             else prisma_footage_update gameplayId inputIsAnalyzed inputFootageType w))"

definition delete :: "PermsEngine \<Rightarrow> Ctx \<Rightarrow> string \<Rightarrow> World \<Rightarrow> (Error + unit) \<times> World" where
  "delete hasPerms ctx gameplayId w =
     catchAll
       (case footage_findUnique_id (prisma w) gameplayId of
          None \<Rightarrow> (Inl (PrismaError RecordNotFound), w)
        | Some gameplay \<Rightarrow>
            if \<not> hasPerms (sId (session ctx)) USER (Some (userId gameplay)) isOwner
                  (sBlacklisted (session ctx))
            then (Inl (TRPCError UNAUTHORIZED [] None), w)
            else (case prisma_footage_delete gameplayId w of
                    (Inl e, w') \<Rightarrow> (Inl e, w')
                  | (Inr g, w') \<Rightarrow> (Inr (), w')))"

text \<open>
  \<^verbatim>\<open>getReviewItems\<close>. The three draws of \<^verbatim>\<open>Math.random()\<close> are the arguments \<open>r1\<close>, \<open>r2\<close>,
  \<open>r3\<close>, in the order the handler draws them; \<^verbatim>\<open>values[index]\<close> out of range is
  \<^verbatim>\<open>undefined\<close>. \<^verbatim>\<open>findMany\<close> returns an array, never \<^verbatim>\<open>null\<close>, so the handler's test
  \<^verbatim>\<open>reviewItems === null\<close> is false and it returns \<^verbatim>\<open>reviewItems[0]\<close>: \<open>None\<close> stands for
  \<^verbatim>\<open>undefined\<close>. The joined \<^verbatim>\<open>user\<close> is the owner's row.
\<close>

definition randomPick :: "real \<Rightarrow> 'a list \<Rightarrow> 'a option" where
  "randomPick r vals =
     (let index = \<lfloor>r * real (length vals)\<rfloor> in
      if 0 \<le> index \<and> nat index < length vals then Some (vals ! nat index) else None)"

definition getReviewItems ::
  "real \<Rightarrow> real \<Rightarrow> real \<Rightarrow> Ctx \<Rightarrow> World \<Rightarrow> (Error + (Footage \<times> User option) option) \<times> World" where
  "getReviewItems r1 r2 r3 ctx w =
     (let itemCount = int (length (footage (prisma w)));
          orderBy = randomPick r1 [''userId'', ''id'', ''youtubeUrl''];
          orderDir = randomPick r2 [''desc'', ''asc''];
          tenDocs = \<lfloor>r3 * real_of_int (itemCount - 1 + 1)\<rfloor>
      in case footage_orderBy orderBy orderDir (footage (prisma w)) of
           Inl e \<Rightarrow> (Inl e, w)
         | Inr ordered \<Rightarrow>
             (case findMany_page 1 tenDocs ordered of
                Inl e \<Rightarrow> (Inl e, w)
              | Inr reviewItems \<Rightarrow>
                  (Inr (case reviewItems of
                          [] \<Rightarrow> None
                        | g # rest \<Rightarrow> Some (g, user_findUnique (prisma w) (userId g))), w)))"

text \<open>
  \<^verbatim>\<open>review\<close> (the vote): no call of the permission engine; the only test is that the
  session has a user id. \<^verbatim>\<open>footageVotes.create\<close> returns the row or throws, so the test
  \<^verbatim>\<open>!footageVote\<close> is false.
\<close>

definition review ::
  "(nat \<Rightarrow> string) \<Rightarrow> Ctx \<Rightarrow> string \<Rightarrow> bool \<Rightarrow> GameplayType \<Rightarrow> World \<Rightarrow> (Error + string) \<times> World" where
  "review cuid ctx gameplayId inputIsGame inputActualGame w =
     (if sId (session ctx) = [] then (Inr ''No user'', w)
      else case prisma_footageVotes_create cuid gameplayId inputIsGame inputActualGame (sId (session ctx)) w of
             (Inl e, w') \<Rightarrow> (Inl e, w')
           | (Inr footageVote, w') \<Rightarrow> (Inr ''Updated the gameplay document successfully.'', w'))"

section \<open>The file system\<close>

text \<open>
  Paths are the strings the code builds, with \<^verbatim>\<open>/\<close> as separator; a path without one
  lies in the working directory, which always exists.
\<close>

definition existsSync :: "FS \<Rightarrow> string \<Rightarrow> bool" where
  "existsSync files p = (map_of files p \<noteq> None)"

definition parentOf :: "string \<Rightarrow> string option" where
  "parentOf p =
     (if CHR ''/'' \<in> set p then Some (rev (tl (dropWhile (\<lambda>c. c \<noteq> CHR ''/'') (rev p))))
      else None)"

definition mkdirSync :: "FS \<Rightarrow> string \<Rightarrow> Error + FS" where
  "mkdirSync files p =
     (if existsSync files p then Inl (FsError EEXIST)
      else case parentOf p of
             None \<Rightarrow> Inr (files @ [(p, Dir)])
           | Some d \<Rightarrow>
               (if d = [] \<or> map_of files d = Some Dir then Inr (files @ [(p, Dir)])
                else if map_of files d = Some File then Inl (FsError ENOTDIR)
                else Inl (FsError ENOENT)))"

definition readdirSync :: "FS \<Rightarrow> string \<Rightarrow> Error + string list" where
  "readdirSync files source =
     (case map_of files source of
        None \<Rightarrow> Inl (FsError ENOENT)
      | Some File \<Rightarrow> Inl (FsError ENOTDIR)
      | Some Dir \<Rightarrow>
          Inr (map (\<lambda>e. drop (length source + 1) (fst e))
                 (filter (\<lambda>e. parentOf (fst e) = Some source) files)))"

definition writeFile :: "FS \<Rightarrow> string \<Rightarrow> FS" where
  \<comment> \<open>\<^verbatim>\<open>fs.createWriteStream(p)\<close>: the file exists from then on\<close>
  "writeFile files p = (if existsSync files p then files else files @ [(p, File)])"

definition inside :: "string \<Rightarrow> string \<Rightarrow> bool" where
  "inside d p = (take (length d + 1) p = d @ ''/'')"

definition fse_copy :: "FS \<Rightarrow> string \<Rightarrow> string \<Rightarrow> FS" where
  \<comment> \<open>\<^verbatim>\<open>fse.copy(src, dest)\<close>: everything under \<open>src\<close> is copied under \<open>dest\<close>, replacing what is there\<close>
  "fse_copy files src dest =
     (let copied = map (\<lambda>e. (dest @ drop (length src) (fst e), snd e))
                     (filter (\<lambda>e. inside src (fst e)) files)
      in filter (\<lambda>e. fst e \<notin> set (map fst copied)) files @ copied)"

definition rmSync :: "FS \<Rightarrow> string \<Rightarrow> FS" where
  \<comment> \<open>\<^verbatim>\<open>fs.rmSync(p, { recursive: true, force: true })\<close>; on a file, \<^verbatim>\<open>{ force: true }\<close>\<close>
  "rmSync files p = filter (\<lambda>e. fst e \<noteq> p \<and> \<not> inside p (fst e)) files"

section \<open>The clips service\<close>

definition getDirectories :: "FS \<Rightarrow> string \<Rightarrow> Error + string list" where
  "getDirectories files source =
     (case readdirSync files source of
        Inl e \<Rightarrow> Inl e
      | Inr names \<Rightarrow>
          Inr (filter (\<lambda>path. map_of files path = Some Dir)
                 (map (\<lambda>file. source @ ''/'' @ file) names)))"

text \<open>
  \<^verbatim>\<open>storeClips\<close>. \<open>FS_LOCATION\<close> is the environment variable, \<open>None\<close> when unset (the
  template then reads \<^verbatim>\<open>undefined\<close>); \<open>copyOk\<close> tells for which segment directory
  \<^verbatim>\<open>fse.copy\<close> succeeds. An exception ends the loop where it is thrown. The creation of
  \<^verbatim>\<open>clip\<close> rows is commented out in the source, so the loop leaves the database alone.
\<close>

fun storeClips_loop ::
  "string \<Rightarrow> (nat \<Rightarrow> string) \<Rightarrow> (string \<Rightarrow> bool) \<Rightarrow> string \<Rightarrow> string list \<Rightarrow> World \<Rightarrow> Error option \<times> World" where
  "storeClips_loop location cuid copyOk i [] w = (None, w)"
| "storeClips_loop location cuid copyOk i (clipDir # clipDirs) w =
     (let uuid = cuid (cuids w);
          w1 = w\<lparr>cuids := Suc (cuids w)\<rparr>;
          footageDir = location @ ''/'' @ i;
          clipLocation = footageDir @ ''/'' @ uuid
      in case (if \<not> existsSync (fs w1) footageDir then mkdirSync (fs w1) footageDir
               else Inr (fs w1)) of
           Inl e \<Rightarrow> (Some e, w1)
         | Inr fs1 \<Rightarrow>
             (case mkdirSync fs1 clipLocation of
                Inl e \<Rightarrow> (Some e, w1\<lparr>fs := fs1\<rparr>)
              | Inr fs2 \<Rightarrow>
                  if copyOk clipDir
                  then storeClips_loop location cuid copyOk i clipDirs
                         (w1\<lparr>fs := fse_copy fs2 clipDir clipLocation\<rparr>)
                  else (Some (FsError CopyFailed), w1\<lparr>fs := fs2\<rparr>)))"

definition storeClips ::
  "string option \<Rightarrow> (nat \<Rightarrow> string) \<Rightarrow> (string \<Rightarrow> bool) \<Rightarrow> string \<Rightarrow> World \<Rightarrow> Error option \<times> World" where
  "storeClips FS_LOCATION cuid copyOk i w =
     (case (case FS_LOCATION of
              None \<Rightarrow> Inr (fs w)
            | Some l \<Rightarrow> if l \<noteq> [] \<and> \<not> existsSync (fs w) l then mkdirSync (fs w) l else Inr (fs w)) of
        Inl e \<Rightarrow> (Some e, w)
      | Inr fs0 \<Rightarrow>
          (case getDirectories fs0 ''clips'' of
             Inl e \<Rightarrow> (Some e, w\<lparr>fs := fs0\<rparr>)
           | Inr clipDirs \<Rightarrow>
               storeClips_loop (case FS_LOCATION of None \<Rightarrow> ''undefined'' | Some l \<Rightarrow> l)
                 cuid copyOk i clipDirs (w\<lparr>fs := fs0\<rparr>)))"

text \<open>
  \<^verbatim>\<open>parseClips\<close> makes the working directory and spawns the analyzer; what it registers
  for the analyzer's exit is \<open>parseClips_onExit\<close>, which runs on the world the analyzer
  leaves. The update of \<^verbatim>\<open>isParsed\<close> is commented out in the source.
\<close>

definition parseClips :: "string \<Rightarrow> string \<Rightarrow> World \<Rightarrow> Error option \<times> World" where
  "parseClips uuid video w =
     (case (if \<not> existsSync (fs w) ''clips'' then mkdirSync (fs w) ''clips'' else Inr (fs w)) of
        Inl e \<Rightarrow> (Some e, w)
      | Inr fs1 \<Rightarrow> (None, w\<lparr>fs := fs1, spawned := spawned w @ [(uuid, video)]\<rparr>))"

definition parseClips_onExit ::
  "string option \<Rightarrow> (nat \<Rightarrow> string) \<Rightarrow> (string \<Rightarrow> bool) \<Rightarrow> string \<Rightarrow> string \<Rightarrow> World \<Rightarrow> Error option \<times> World" where
  "parseClips_onExit FS_LOCATION cuid copyOk uuid video w =
     (let w0 = w\<lparr>spawned := remove1 (uuid, video) (spawned w)\<rparr> in
      case getDirectories (fs w0) ''clips'' of
        Inl e \<Rightarrow> (Some e, w0)
      | Inr clipDirs \<Rightarrow>
          if length clipDirs > 0
          then (case storeClips FS_LOCATION cuid copyOk uuid w0 of
                  (Some e, w1) \<Rightarrow> (Some e, w1)
                | (None, w1) \<Rightarrow> (None, w1\<lparr>fs := rmSync (rmSync (fs w1) ''clips'') video\<rparr>))
          else (None, w0))"

section \<open>The REST endpoints\<close>

text \<open>
  \<^verbatim>\<open>createFootage\<close>, \<^verbatim>\<open>updateFootage\<close> and \<^verbatim>\<open>deleteFootage\<close> of the express API. None of them
  takes a session or calls the permission engine.
\<close>

definition createFootage ::
  "(string \<Rightarrow> Error + Format list) \<Rightarrow> (nat \<Rightarrow> string) \<Rightarrow> string \<Rightarrow> string \<Rightarrow> GameplayType
     \<Rightarrow> World \<Rightarrow> (Error + Footage) \<times> World" where
  "createFootage getInfo cuid i url ty w =
     (if footage_findUnique_youtubeUrl (prisma w) url \<noteq> None
      then (Inl (HttpError 400 (''URL '' @ url @ '' has already been submitted.'')), w)
      else
        (let w1 = w\<lparr>ytdlCalls := GetInfo url # ytdlCalls w\<rparr> in
         case getInfo url of
           Inl e \<Rightarrow> (Inl e, w1)
         | Inr formats \<Rightarrow>
             if defaultFormat formats = None \<and> lowFormat formats = None
             then (Inl (HttpError 400 (''URL '' @ url @ '' does not provide an acceptable video format.'')), w1)
             else
               (let newFootageId = cuid (cuids w1);
                    video = newFootageId @ ''.mp4'';
                    w2 = w1\<lparr>cuids := Suc (cuids w1),
                            ytdlCalls := Download url # ytdlCalls w1,
                            fs := writeFile (fs w1) video\<rparr>
                in case parseClips newFootageId video w2 of
                     (Some e, w3) \<Rightarrow> (Inl e, w3)
                   | (None, w3) \<Rightarrow>
                       prisma_footage_create cuid i url (the (chosenFormat formats)) ty w3)))"

definition updateFootage ::
  "string \<Rightarrow> bool \<Rightarrow> GameplayType \<Rightarrow> World \<Rightarrow> (Error + Footage) \<times> World" where
  "updateFootage i inputIsAnalyzed inputFootageType w =
     (case prisma_footage_update i inputIsAnalyzed inputFootageType w of
        (Inl error, w') \<Rightarrow> (Inl (HttpError 500 ''Something went wrong processing the video.''), w')
      | (Inr data, w') \<Rightarrow> (Inr data, w'))"

definition deleteFootage :: "string \<Rightarrow> World \<Rightarrow> (Error + string) \<times> World" where
  "deleteFootage i w =
     (case prisma_footage_delete i w of
        (Inl error, w') \<Rightarrow> (Inl (HttpError 500 ''Something went wrong processing the video.''), w')
      | (Inr g, w') \<Rightarrow> (Inr ''Footage deleted successfully.'', w'))"

section \<open>The permission engine\<close>

text \<open>
  Modelled from the spec: \<^verbatim>\<open>hasPerms\<close> of \<^verbatim>\<open>@server/utils/hasPerms\<close> is not among the
  sources. A blacklisted actor is always denied; \<open>isOwner\<close> allows the actor who is the
  owner of the resource and any actor whose role is at least moderator;
  \<open>roleAtLeast R\<close> allows the roles from \<open>R\<close> upwards in USER, TRUSTED, MOD, ADMIN.
\<close>

definition roleRank :: "Roles \<Rightarrow> nat" where
  "roleRank r = (case r of USER \<Rightarrow> 0 | TRUSTED \<Rightarrow> 1 | MOD \<Rightarrow> 2 | ADMIN \<Rightarrow> 3)"

definition hasPerms :: PermsEngine where
  "hasPerms actorId actorRole resourceOwnerId requirement blacklisted =
     (if blacklisted then False
      else case requirement of
             isOwner \<Rightarrow> resourceOwnerId = Some actorId \<or> roleRank MOD \<le> roleRank actorRole
           | roleAtLeast R \<Rightarrow> roleRank R \<le> roleRank actorRole)"

section \<open>Notions the properties are stated with\<close>

text \<open>
  The call every gated procedure makes: the session's id and blacklist flag, and the
  constant \<^verbatim>\<open>Roles.User\<close> as the role.
\<close>

abbreviation gate :: "PermsEngine \<Rightarrow> Ctx \<Rightarrow> string option \<Rightarrow> Perms \<Rightarrow> bool" where
  "gate engine ctx itemOwnerId requiredPerms \<equiv>
     engine (sId (session ctx)) USER itemOwnerId requiredPerms (sBlacklisted (session ctx))"

text \<open>
  The encoding selection in the spec's words: a fixed preference list evaluated in
  order, the first available encoding wins.
\<close>

definition preference :: "int list" where
  "preference = [299, 298, 136]"

definition firstAvailable :: "Format list \<Rightarrow> int option" where
  "firstAvailable formats = find (\<lambda>i. i \<in> itag ` set formats) preference"

text \<open>Every clip row references a row of \<^verbatim>\<open>footage\<close> (the relation of the schema).\<close>

definition clipsReferToFootage :: "DB \<Rightarrow> bool" where
  "clipsReferToFootage db = (clipFootageId ` set (clip db) \<subseteq> fId ` set (footage db))"

text \<open>
  The row \<^verbatim>\<open>footage.create\<close> inserts, and the world \<^verbatim>\<open>createFootage\<close> has made when it
  reaches the insert: one identifier drawn, the download begun, the analyzer spawned.
\<close>

definition newRow :: "string \<Rightarrow> string \<Rightarrow> string \<Rightarrow> int \<Rightarrow> GameplayType \<Rightarrow> Footage" where
  "newRow i uid url fmt ty =
     \<lparr>fId = i, userId = uid, youtubeUrl = url, videoFormat = fmt, footageType = ty,
      isAnalyzed = False, isParsed = False\<rparr>"

definition started :: "(nat \<Rightarrow> string) \<Rightarrow> string \<Rightarrow> World \<Rightarrow> World" where
  "started cuid url w =
     w\<lparr>cuids := Suc (cuids w),
        ytdlCalls := Download url # GetInfo url # ytdlCalls w,
        fs := (let files = writeFile (fs w) (cuid (cuids w) @ ''.mp4'')
               in if existsSync files ''clips'' then files else files @ [(''clips'', Dir)]),
        spawned := spawned w @ [(cuid (cuids w), cuid (cuids w) @ ''.mp4'')]\<rparr>"

section \<open>Example data\<close>

definition alice :: User where
  "alice = \<lparr>uId = ''alice'', uName = Some ''Alice'', uRole = USER, uBlacklisted = False\<rparr>"

definition bob :: User where
  "bob = \<lparr>uId = ''bob'', uName = Some ''Bob'', uRole = ADMIN, uBlacklisted = True\<rparr>"

definition carol :: User where
  "carol = \<lparr>uId = ''carol'', uName = None, uRole = MOD, uBlacklisted = False\<rparr>"

definition footageA :: Footage where
  "footageA = \<lparr>fId = ''g1'', userId = ''alice'', youtubeUrl = ''https://youtu.be/a'',
                 videoFormat = 299, footageType = VAL, isAnalyzed = False, isParsed = False\<rparr>"

definition voteA :: FootageVotes where
  "voteA = \<lparr>vId = ''v1'', footageId = ''g1'', voterId = ''carol'', isGame = True, actualGame = VAL\<rparr>"

definition exampleDB :: DB where
  "exampleDB = \<lparr>user = [alice, bob, carol], footage = [footageA], footageVotes = [voteA], clip = []\<rparr>"

definition exampleWorld :: World where
  "exampleWorld = \<lparr>prisma = exampleDB, fs = [(''g1.mp4'', File), (''clips'', Dir)],
                     ytdlCalls = [], spawned = [(''g1'', ''g1.mp4'')], cuids = 0\<rparr>"

definition emptyWorld :: World where
  "emptyWorld = exampleWorld\<lparr>prisma := exampleDB\<lparr>footage := [], footageVotes := []\<rparr>\<rparr>"

definition segmentsWorld :: World where
  "segmentsWorld = exampleWorld\<lparr>fs := [(''data'', Dir), (''g1.mp4'', File), (''clips'', Dir),
       (''clips/0'', Dir), (''clips/0/a.mp4'', File), (''clips/1'', Dir)]\<rparr>"

definition ids :: "nat \<Rightarrow> string" where
  "ids n = CHR ''c'' # replicate n (CHR ''x'')"

definition ctxOf :: "User \<Rightarrow> Ctx" where
  "ctxOf u = \<lparr>session = \<lparr>sId = uId u, sRole = uRole u, sBlacklisted = uBlacklisted u\<rparr>\<rparr>"

definition metadata :: "string \<Rightarrow> Error + Format list" where
  "metadata url = Inr [\<lparr>itag = 136\<rparr>, \<lparr>itag = 298\<rparr>, \<lparr>itag = 18\<rparr>]"

definition notBlacklisted :: PermsEngine where
  "notBlacklisted actorId actorRole resourceOwnerId requirement blacklisted = (\<not> blacklisted)"

definition clipA :: Clip where
  "clipA = \<lparr>cId = ''k1'', clipFootageId = ''g1''\<rparr>"

definition clipWorld :: World where
  "clipWorld = exampleWorld\<lparr>prisma := exampleDB\<lparr>clip := [clipA]\<rparr>\<rparr>"

definition unacceptable :: "string \<Rightarrow> Error + Format list" where
  "unacceptable url = Inr [\<lparr>itag = 18\<rparr>, \<lparr>itag = 22\<rparr>]"

section \<open>Evaluating the examples\<close>

lemmas example_defs =
  alice_def bob_def carol_def footageA_def voteA_def exampleDB_def exampleWorld_def
  emptyWorld_def segmentsWorld_def ctxOf_def clipA_def clipWorld_def

section \<open>The permission gate of the router\<close>

lemma create_denied:
  "\<not> gate engine ctx None isOwner \<Longrightarrow>
     create engine getInfo cuid ctx url ty w = (Inl (TRPCError UNAUTHORIZED [] None), w)"
  by (simp add: create_def)

lemma get_denied:
  "footage_findUnique_id (prisma w) gid = Some g \<Longrightarrow>
   \<not> gate engine ctx (Some (userId g)) isOwner \<Longrightarrow>
     get engine ctx gid w =
       (Inl (TRPCError NOT_FOUND ''Could not find that requested gameplay'' None), w)"
  by (simp add: get_def)

lemma getClips_denied:
  "footage_findUnique_id (prisma w) gid = Some g \<Longrightarrow>
   \<not> gate engine ctx (Some (userId g)) roleMod \<Longrightarrow>
     getClips engine ctx gid w = (Inl (TRPCError UNAUTHORIZED [] None), w)"
  by (simp add: getClips_def)

lemma update_denied:
  "footage_findUnique_id (prisma w) gid = Some g \<Longrightarrow>
   \<not> gate engine ctx (Some (userId g)) (if isAnalyzed g = a then isOwner else roleMod) \<Longrightarrow>
     update engine ctx gid t a w =
       (Inl (TRPCError INTERNAL_SERVER_ERROR ''An error occurred in the server''
              (Some (TRPCError UNAUTHORIZED [] None))), w)"
  by (simp add: update_def catchAll_def)

lemma delete_denied:
  "footage_findUnique_id (prisma w) gid = Some g \<Longrightarrow>
   \<not> gate engine ctx (Some (userId g)) isOwner \<Longrightarrow>
     delete engine ctx gid w =
       (Inl (TRPCError INTERNAL_SERVER_ERROR ''An error occurred in the server''
              (Some (TRPCError UNAUTHORIZED [] None))), w)"
  by (simp add: delete_def catchAll_def)

text \<open>
  C1, as amended. In the gameplay router, \<^verbatim>\<open>create\<close>, \<^verbatim>\<open>get\<close>, \<^verbatim>\<open>delete\<close>, \<^verbatim>\<open>getClips\<close> and
  \<^verbatim>\<open>update\<close> call the permission engine before they change or return anything: whenever
  the call a procedure makes is denied, whatever the engine, the procedure fails and
  leaves the world as it was. The requirement is \<open>isOwner\<close> for \<^verbatim>\<open>create\<close> (with no owner),
  \<^verbatim>\<open>get\<close> and \<^verbatim>\<open>delete\<close>, \<open>roleMod\<close> for \<^verbatim>\<open>getClips\<close>, and for \<^verbatim>\<open>update\<close> the one its input
  selects.
\<close>

theorem gameplayRouter_gated:
  "(\<not> gate engine ctx None isOwner \<longrightarrow>
      isl (fst (create engine getInfo cuid ctx url ty w)) \<and>
      snd (create engine getInfo cuid ctx url ty w) = w) \<and>
   (footage_findUnique_id (prisma w) gid = Some g \<longrightarrow>
      (\<not> gate engine ctx (Some (userId g)) isOwner \<longrightarrow>
         isl (fst (get engine ctx gid w)) \<and> snd (get engine ctx gid w) = w \<and>
         isl (fst (delete engine ctx gid w)) \<and> snd (delete engine ctx gid w) = w) \<and>
      (\<not> gate engine ctx (Some (userId g)) roleMod \<longrightarrow>
         isl (fst (getClips engine ctx gid w)) \<and> snd (getClips engine ctx gid w) = w) \<and>
      (\<not> gate engine ctx (Some (userId g)) (if isAnalyzed g = a then isOwner else roleMod) \<longrightarrow>
         isl (fst (update engine ctx gid t a w)) \<and> snd (update engine ctx gid t a w) = w))"
  by (simp add: create_denied get_denied getClips_denied update_denied delete_denied)

text \<open>
  The theorem at the blacklisted user of the example, whom the engine of the spec
  denies whatever the requirement.
\<close>

theorem gameplayRouter_gated_witness:
  "\<not> gate hasPerms (ctxOf bob) None isOwner \<and>
   footage_findUnique_id (prisma exampleWorld) ''g1'' = Some footageA \<and>
   \<not> gate hasPerms (ctxOf bob) (Some (userId footageA)) isOwner \<and>
   \<not> gate hasPerms (ctxOf bob) (Some (userId footageA)) roleMod \<and>
   isl (fst (create hasPerms metadata ids (ctxOf bob) ''https://youtu.be/b'' CSG exampleWorld)) \<and>
   snd (create hasPerms metadata ids (ctxOf bob) ''https://youtu.be/b'' CSG exampleWorld) = exampleWorld \<and>
   isl (fst (get hasPerms (ctxOf bob) ''g1'' exampleWorld)) \<and>
   snd (get hasPerms (ctxOf bob) ''g1'' exampleWorld) = exampleWorld \<and>
   isl (fst (delete hasPerms (ctxOf bob) ''g1'' exampleWorld)) \<and>
   snd (delete hasPerms (ctxOf bob) ''g1'' exampleWorld) = exampleWorld \<and>
   isl (fst (getClips hasPerms (ctxOf bob) ''g1'' exampleWorld)) \<and>
   snd (getClips hasPerms (ctxOf bob) ''g1'' exampleWorld) = exampleWorld \<and>
   isl (fst (update hasPerms (ctxOf bob) ''g1'' CSG True exampleWorld)) \<and>
   snd (update hasPerms (ctxOf bob) ''g1'' CSG True exampleWorld) = exampleWorld"
proof -
  have denied: "\<And>owner req. \<not> gate hasPerms (ctxOf bob) owner req"
    by (simp add: hasPerms_def ctxOf_def bob_def)
  have found: "footage_findUnique_id (prisma exampleWorld) ''g1'' = Some footageA"
    by (simp add: footage_findUnique_id_def exampleWorld_def exampleDB_def footageA_def)
  show ?thesis
    using gameplayRouter_gated [of hasPerms "ctxOf bob" metadata ids "''https://youtu.be/b''" CSG
        exampleWorld "''g1''" footageA True CSG] denied found
    by simp
qed

text \<open>
  C1 as stated fails. \<^verbatim>\<open>deleteFootage\<close> and \<^verbatim>\<open>updateFootage\<close> of the REST API take no
  session and call no permission engine, and they change the database. In the router,
  \<^verbatim>\<open>review\<close> calls no permission engine either: a user whom the engine of the spec
  denies whatever the requirement stores a vote.
\<close>

theorem ungated_endpoints_change_state:
  "deleteFootage ''g1'' exampleWorld =
     (Inr ''Footage deleted successfully.'',
      exampleWorld\<lparr>prisma := exampleDB\<lparr>footage := [], footageVotes := []\<rparr>\<rparr>) \<and>
   updateFootage ''g1'' True CSG exampleWorld =
     (Inr (footageA\<lparr>isAnalyzed := True, footageType := CSG\<rparr>),
      exampleWorld\<lparr>prisma := exampleDB\<lparr>footage :=
         [footageA\<lparr>isAnalyzed := True, footageType := CSG\<rparr>]\<rparr>\<rparr>) \<and>
   (\<forall>owner req. \<not> gate hasPerms (ctxOf bob) owner req) \<and>
   fst (review ids (ctxOf bob) ''g1'' False CSG exampleWorld) =
     Inr ''Updated the gameplay document successfully.'' \<and>
   length (footageVotes (prisma (snd (review ids (ctxOf bob) ''g1'' False CSG exampleWorld)))) =
     Suc (length (footageVotes (prisma exampleWorld)))"
  by (simp add: deleteFootage_def updateFootage_def prisma_footage_delete_def
      prisma_footage_update_def footage_findUnique_id_def referencing_def Clip_onDelete_def
      GameplayVotes_onDelete_def review_def prisma_footageVotes_create_def
      user_findUnique_def hasPerms_def ids_def Let_def example_defs)

section \<open>Where the handlers miss the behaviour claimed\<close>

text \<open>
  What does hold of \<^verbatim>\<open>update\<close>: once the submission is found, the call fails exactly when
  the gate denies the requirement its input selects; and whatever makes it fail, the
  error it surfaces is never \<^verbatim>\<open>UNAUTHORIZED\<close>.
\<close>

lemma update_succeeds_iff:
  assumes "footage_findUnique_id (prisma w) gid = Some g"
  shows "isl (fst (update engine ctx gid t a w)) =
     (\<not> gate engine ctx (Some (userId g)) (if isAnalyzed g = a then isOwner else roleMod))"
  using assms
  by (auto simp: update_def catchAll_def prisma_footage_update_def Let_def)

lemma update_never_unauthorized:
  "fst (update engine ctx gid t a w) \<noteq> Inl (TRPCError UNAUTHORIZED m c)"
  by (auto simp: update_def catchAll_def split: sum.splits)

text \<open>
  C2. A user who is neither the owner nor blacklisted changes the category of the
  example submission and leaves \<^verbatim>\<open>isAnalyzed\<close> as it is. The handler throws
  \<^verbatim>\<open>UNAUTHORIZED\<close> inside its own \<^verbatim>\<open>try\<close>, so what the caller gets is the
  \<^verbatim>\<open>INTERNAL_SERVER_ERROR\<close> of the \<^verbatim>\<open>catch\<close>, with the \<^verbatim>\<open>UNAUTHORIZED\<close> error as its cause.
\<close>

theorem update_denied_surfaces_internal_error:
  "update hasPerms (ctxOf carol) ''g1'' CSG False exampleWorld =
     (Inl (TRPCError INTERNAL_SERVER_ERROR ''An error occurred in the server''
            (Some (TRPCError UNAUTHORIZED [] None))), exampleWorld)"
  by (simp add: update_def catchAll_def footage_findUnique_id_def hasPerms_def roleRank_def
      example_defs)

text \<open>
  C3. A blacklisted user casts a vote through \<^verbatim>\<open>review\<close>: the call succeeds and the vote
  is stored.
\<close>

theorem review_by_blacklisted_creates_vote:
  "sBlacklisted (session (ctxOf bob)) \<and>
   review ids (ctxOf bob) ''g1'' True VAL exampleWorld =
     (Inr ''Updated the gameplay document successfully.'',
      exampleWorld\<lparr>cuids := 1, prisma := exampleDB\<lparr>footageVotes :=
         [voteA, \<lparr>vId = ''c'', footageId = ''g1'', voterId = ''bob'', isGame = True,
                   actualGame = VAL\<rparr>]\<rparr>\<rparr>)"
  by (simp add: review_def prisma_footageVotes_create_def footage_findUnique_id_def
      user_findUnique_def Let_def ids_def example_defs)

text \<open>
  C5. The analyzer left two segment directories and both copies succeed: the two
  directories are stored under \<^verbatim>\<open>data/g1\<close>, the working directory and the video are
  removed, and the \<^verbatim>\<open>clip\<close> table is as empty as before.
\<close>

theorem storeClips_creates_no_clip_rows:
  "clip (prisma segmentsWorld) = [] \<and>
   parseClips_onExit (Some ''data'') ids (\<lambda>d. True) ''g1'' ''g1.mp4'' segmentsWorld =
     (None, segmentsWorld\<lparr>cuids := 2, spawned := [],
        fs := [(''data'', Dir), (''data/g1'', Dir), (''data/g1/c'', Dir),
               (''data/g1/c/a.mp4'', File), (''data/g1/cx'', Dir)]\<rparr>)"
  by (simp add: parseClips_onExit_def storeClips_def getDirectories_def readdirSync_def
      parentOf_def existsSync_def mkdirSync_def fse_copy_def rmSync_def inside_def ids_def
      Let_def example_defs)

text \<open>
  What does hold of \<^verbatim>\<open>getReviewItems\<close>: on a table that is not empty, with draws in
  \<open>[0, 1)\<close>, it returns a stored submission joined with its owner's row.
\<close>

lemma floor_random_index:
  assumes "0 \<le> r" "r < 1" "0 < n"
  shows "0 \<le> \<lfloor>r * real n\<rfloor> \<and> nat \<lfloor>r * real n\<rfloor> < n"
proof -
  have "0 \<le> r * real n" using assms by simp
  then have lo: "0 \<le> \<lfloor>r * real n\<rfloor>" by simp
  have "r * real n < real n" using assms by simp
  then have "\<lfloor>r * real n\<rfloor> < int n" by (simp add: floor_less_iff)
  with lo show ?thesis by (simp add: nat_less_iff)
qed

lemma randomPick_Some:
  assumes "0 \<le> r" "r < 1" "vals \<noteq> []"
  shows "\<exists>v. v \<in> set vals \<and> randomPick r vals = Some v"
  using floor_random_index [OF assms(1,2), of "length vals"] assms(3)
  by (auto simp: randomPick_def Let_def)

lemma footage_orderBy_perm:
  assumes "field \<in> set [''userId'', ''id'', ''youtubeUrl'']" "dir \<in> set [''desc'', ''asc'']"
  shows "\<exists>ordered. footage_orderBy (Some field) (Some dir) rows = Inr ordered \<and>
           set ordered = set rows \<and> length ordered = length rows"
  using assms by (auto simp: footage_orderBy_def orderColumn_def)

lemma take1_drop:
  "k < length xs \<Longrightarrow> take (Suc 0) (drop k xs) = [xs ! k]"
  by (simp add: Cons_nth_drop_Suc [symmetric])

lemma getReviewItems_nonempty:
  assumes r: "0 \<le> r1" "r1 < 1" "0 \<le> r2" "r2 < 1" "0 \<le> r3" "r3 < 1"
    and ne: "footage (prisma w) \<noteq> []"
  shows "\<exists>g. g \<in> set (footage (prisma w)) \<and>
     getReviewItems r1 r2 r3 ctx w = (Inr (Some (g, user_findUnique (prisma w) (userId g))), w)"
proof -
  let ?rows = "footage (prisma w)"
  obtain field where f: "field \<in> set [''userId'', ''id'', ''youtubeUrl'']"
    "randomPick r1 [''userId'', ''id'', ''youtubeUrl''] = Some field"
    using randomPick_Some [OF r(1,2), of "[''userId'', ''id'', ''youtubeUrl'']"] by auto
  obtain dir where d: "dir \<in> set [''desc'', ''asc'']" "randomPick r2 [''desc'', ''asc''] = Some dir"
    using randomPick_Some [OF r(3,4), of "[''desc'', ''asc'']"] by auto
  obtain ordered where o: "footage_orderBy (Some field) (Some dir) ?rows = Inr ordered"
    "set ordered = set ?rows" "length ordered = length ?rows"
    using footage_orderBy_perm [OF f(1) d(1)] by blast
  let ?k = "\<lfloor>r3 * real (length ?rows)\<rfloor>"
  have k: "0 \<le> ?k" "nat ?k < length ordered"
    using floor_random_index [OF r(5,6), of "length ?rows"] ne o(3) by simp_all
  then have page: "findMany_page 1 ?k ordered = Inr [ordered ! nat ?k]"
    by (simp add: findMany_page_def take1_drop)
  have "ordered ! nat ?k \<in> set ?rows"
    using k(2) o(2) nth_mem by blast
  moreover have "getReviewItems r1 r2 r3 ctx w =
      (Inr (Some (ordered ! nat ?k, user_findUnique (prisma w) (userId (ordered ! nat ?k)))), w)"
    using f(2) d(2) o(1) page by (simp add: getReviewItems_def Let_def)
  ultimately show ?thesis by blast
qed

text \<open>
  C6. On an empty \<^verbatim>\<open>footage\<close> table \<^verbatim>\<open>getReviewItems\<close> throws nothing: it returns
  \<^verbatim>\<open>reviewItems[0]\<close> of an empty array, which is \<^verbatim>\<open>undefined\<close>.
\<close>

theorem getReviewItems_empty_returns_undefined:
  "footage (prisma emptyWorld) = [] \<and>
   getReviewItems (1 / 4) (3 / 4) (1 / 2) (ctxOf alice) emptyWorld = (Inr None, emptyWorld)"
  by (simp add: getReviewItems_def randomPick_def footage_orderBy_def orderColumn_def
      findMany_page_def Let_def example_defs)

section \<open>The exit handler without segments\<close>

lemma storeClips_loop_prisma:
  "prisma (snd (storeClips_loop location cuid copyOk i clipDirs w)) = prisma w"
  by (induction clipDirs arbitrary: w) (auto simp: Let_def split: sum.splits)

lemma storeClips_prisma: "prisma (snd (storeClips loc cuid copyOk i w)) = prisma w"
  by (auto simp: storeClips_def storeClips_loop_prisma split: sum.splits option.splits)

lemma parseClips_onExit_prisma:
  "prisma (snd (parseClips_onExit loc cuid copyOk uuid video w)) = prisma w"
proof -
  have "prisma (snd (storeClips loc cuid copyOk uuid (w\<lparr>spawned := remove1 (uuid, video) (spawned w)\<rparr>))) = prisma w"
    by (simp add: storeClips_prisma)
  then show ?thesis
    by (auto simp: parseClips_onExit_def Let_def split: sum.splits prod.splits option.splits)
qed

text \<open>
  C4, as amended. When the analyzer has left no segment directory, the exit handler is
  a no-op: it reports no error and leaves the database and the file system as they
  are. Nothing is removed: the cleanup stands inside the test \<^verbatim>\<open>clipDirs.length > 0\<close>.
\<close>

theorem no_segments_is_noop:
  "getDirectories (fs w) ''clips'' = Inr [] \<Longrightarrow>
     parseClips_onExit loc cuid copyOk uuid video w =
       (None, w\<lparr>spawned := remove1 (uuid, video) (spawned w)\<rparr>)"
  by (simp add: parseClips_onExit_def Let_def)

text \<open>The theorem at the example world, whose working directory is empty.\<close>

theorem no_segments_is_noop_witness:
  "getDirectories (fs exampleWorld) ''clips'' = Inr [] \<and>
   parseClips_onExit (Some ''data'') ids (\<lambda>d. True) ''g1'' ''g1.mp4'' exampleWorld =
     (None, exampleWorld\<lparr>spawned := remove1 (''g1'', ''g1.mp4'') (spawned exampleWorld)\<rparr>)"
proof -
  have h: "getDirectories (fs exampleWorld) ''clips'' = Inr []"
    by (simp add: getDirectories_def readdirSync_def parentOf_def exampleWorld_def)
  show ?thesis
    using h no_segments_is_noop [OF h, of "Some ''data''" ids "\<lambda>d. True" "''g1''" "''g1.mp4''"]
    by simp
qed

text \<open>
  C4 as stated fails at the example world: after the exit handler the downloaded file
  and the working directory still exist, and \<^verbatim>\<open>isParsed\<close> of the submission is still false.
\<close>

theorem no_segments_no_cleanup:
  "getDirectories (fs exampleWorld) ''clips'' = Inr [] \<and>
   parseClips_onExit (Some ''data'') ids (\<lambda>d. True) ''g1'' ''g1.mp4'' exampleWorld =
     (None, exampleWorld\<lparr>spawned := []\<rparr>) \<and>
   existsSync (fs (exampleWorld\<lparr>spawned := []\<rparr>)) ''g1.mp4'' \<and>
   existsSync (fs (exampleWorld\<lparr>spawned := []\<rparr>)) ''clips'' \<and>
   map isParsed (footage (prisma (exampleWorld\<lparr>spawned := []\<rparr>))) = [False]"
  by (simp add: parseClips_onExit_def getDirectories_def readdirSync_def parentOf_def
      existsSync_def Let_def example_defs)

section \<open>Deleting a submission\<close>

lemma find_None_image: "(find (\<lambda>r. key r = i) rows = None) = (i \<notin> key ` set rows)"
  by (induction rows) auto

lemma delete_refused_while_clip_exists:
  assumes "footage_findUnique_id (prisma w) i = Some g"
    and "i \<in> clipFootageId ` set (clip (prisma w))"
  shows "prisma_footage_delete i w = (Inl (PrismaError ForeignKeyConstraint), w)"
  using assms
  by (simp add: prisma_footage_delete_def referencing_def Clip_onDelete_def Let_def
      find_None_image)

lemma prisma_footage_delete_Inr:
  assumes "prisma_footage_delete i w = (Inr g, w')"
  shows "i \<notin> clipFootageId ` set (clip (prisma w))"
    and "w' = w\<lparr>prisma := (prisma w)\<lparr>footage := filter (\<lambda>r. fId r \<noteq> i) (footage (prisma w)),
                footageVotes := filter (\<lambda>v. footageId v \<noteq> i) (footageVotes (prisma w)),
                clip := clip (prisma w)\<rparr>\<rparr>"
  using assms
  by (auto simp: prisma_footage_delete_def referencing_def Clip_onDelete_def
      GameplayVotes_onDelete_def Let_def find_None_image split: option.splits if_splits)

lemma prisma_footage_delete_post:
  assumes "prisma_footage_delete i w = (Inr g, w')"
  shows "i \<notin> clipFootageId ` set (clip (prisma w')) \<and>
         i \<notin> footageId ` set (footageVotes (prisma w')) \<and>
         footage_findUnique_id (prisma w') i = None \<and>
         footageVotes (prisma w') = filter (\<lambda>v. footageId v \<noteq> i) (footageVotes (prisma w))"
  using prisma_footage_delete_Inr [OF assms]
  by (auto simp: footage_findUnique_id_def find_None_iff)

lemma delete_Inr:
  "delete engine ctx gid w = (Inr u, w') \<Longrightarrow> \<exists>g. prisma_footage_delete gid w = (Inr g, w')"
  by (auto simp: delete_def catchAll_def split: option.splits if_splits prod.splits sum.splits)

lemma deleteFootage_Inr:
  "deleteFootage gid w = (Inr m, w') \<Longrightarrow> \<exists>g. prisma_footage_delete gid w = (Inr g, w')"
  by (auto simp: deleteFootage_def split: prod.splits sum.splits)

text \<open>
  What does hold of a delete, through the router or the REST endpoint: when it
  succeeds, the submission and the votes on it are gone (the cascade of the votes'
  relation), the other votes stay, and the \<^verbatim>\<open>clip\<close> table is what it was, for no clip
  referenced the submission. A submission that a clip references is not deleted by
  either endpoint.
\<close>

lemma successful_delete_removes_votes_only:
  "delete engine ctx gid w = (Inr u, w') \<or> deleteFootage gid w = (Inr m, w') \<Longrightarrow>
     gid \<notin> clipFootageId ` set (clip (prisma w)) \<and>
     clip (prisma w') = clip (prisma w) \<and>
     footageVotes (prisma w') = filter (\<lambda>v. footageId v \<noteq> gid) (footageVotes (prisma w)) \<and>
     gid \<notin> footageId ` set (footageVotes (prisma w')) \<and>
     footage_findUnique_id (prisma w') gid = None"
proof -
  assume "delete engine ctx gid w = (Inr u, w') \<or> deleteFootage gid w = (Inr m, w')"
  then obtain g where d: "prisma_footage_delete gid w = (Inr g, w')"
    using delete_Inr deleteFootage_Inr by blast
  from prisma_footage_delete_Inr [OF d] prisma_footage_delete_post [OF d]
  show ?thesis by simp
qed

lemma delete_cascades_to_votes_example:
  "footageVotes (prisma exampleWorld) = [voteA] \<and> footageId voteA = ''g1'' \<and>
   delete hasPerms (ctxOf alice) ''g1'' exampleWorld =
     (Inr (), exampleWorld\<lparr>prisma := exampleDB\<lparr>footage := [], footageVotes := []\<rparr>\<rparr>)"
  by (simp add: delete_def catchAll_def prisma_footage_delete_def footage_findUnique_id_def
      referencing_def Clip_onDelete_def GameplayVotes_onDelete_def hasPerms_def example_defs)

lemma delete_with_clip_fails:
  assumes "footage_findUnique_id (prisma w) gid = Some g"
    and "gid \<in> clipFootageId ` set (clip (prisma w))"
  shows "deleteFootage gid w =
           (Inl (HttpError 500 ''Something went wrong processing the video.''), w)"
    and "gate engine ctx (Some (userId g)) isOwner \<Longrightarrow>
         delete engine ctx gid w =
           (Inl (TRPCError INTERNAL_SERVER_ERROR ''An error occurred in the server''
                  (Some (PrismaError ForeignKeyConstraint))), w)"
  using assms delete_refused_while_clip_exists [OF assms]
  by (simp_all add: deleteFootage_def delete_def catchAll_def)

text \<open>
  C9. The owner deletes a submission that one clip references. The relation of the
  votes has \<^verbatim>\<open>onDelete: Cascade\<close>; the relation of the clips has no \<^verbatim>\<open>onDelete\<close>, so the
  delete is refused by the foreign key: both endpoints fail, and the submission, its
  vote and its clip are all still there.
\<close>

theorem delete_refused_by_clip:
  "footage (prisma clipWorld) = [footageA] \<and> footageVotes (prisma clipWorld) = [voteA] \<and>
   clip (prisma clipWorld) = [clipA] \<and> clipFootageId clipA = fId footageA \<and>
   userId footageA = sId (session (ctxOf alice)) \<and>
   delete hasPerms (ctxOf alice) ''g1'' clipWorld =
     (Inl (TRPCError INTERNAL_SERVER_ERROR ''An error occurred in the server''
            (Some (PrismaError ForeignKeyConstraint))), clipWorld) \<and>
   deleteFootage ''g1'' clipWorld =
     (Inl (HttpError 500 ''Something went wrong processing the video.''), clipWorld)"
  by (simp add: delete_def deleteFootage_def catchAll_def prisma_footage_delete_def
      footage_findUnique_id_def referencing_def Clip_onDelete_def GameplayVotes_onDelete_def
      hasPerms_def example_defs)

section \<open>The role passed to the permission engine\<close>

text \<open>
  C10. Every call of the permission engine passes the constant role \<^verbatim>\<open>User\<close>, and no
  procedure reads the session's role: two sessions that agree on the user id and the
  blacklist flag get the same result from every procedure of the router, whatever the
  engine. So with an engine that denies \<open>roleMod\<close> to the role \<^verbatim>\<open>User\<close>, \<^verbatim>\<open>getClips\<close> and a
  flip of \<^verbatim>\<open>isAnalyzed\<close> fail for every session; and with one that denies \<open>isOwner\<close> to a
  \<^verbatim>\<open>User\<close> who is not the owner, \<^verbatim>\<open>get\<close>, \<^verbatim>\<open>delete\<close> and \<^verbatim>\<open>update\<close> of another user's
  submission fail for every session, moderators and administrators included.
\<close>

theorem role_never_consulted:
  assumes "sId (session ctx') = sId (session ctx)"
    and "sBlacklisted (session ctx') = sBlacklisted (session ctx)"
  shows "get engine ctx' gid w = get engine ctx gid w \<and>
     getMany ctx' page filterGames w = getMany ctx page filterGames w \<and>
     create engine getInfo cuid ctx' url ty w = create engine getInfo cuid ctx url ty w \<and>
     getUsers engine ctx' inputUserId w = getUsers engine ctx inputUserId w \<and>
     getClips engine ctx' gid w = getClips engine ctx gid w \<and>
     update engine ctx' gid ty a w = update engine ctx gid ty a w \<and>
     delete engine ctx' gid w = delete engine ctx gid w \<and>
     getReviewItems r1 r2 r3 ctx' w = getReviewItems r1 r2 r3 ctx w \<and>
     review cuid ctx' gid b ty w = review cuid ctx gid b ty w \<and>
     ((\<forall>uid owner bl. \<not> engine uid USER owner roleMod bl) \<longrightarrow>
        isl (fst (getClips engine ctx' gid w)) \<and>
        (\<forall>g. footage_findUnique_id (prisma w) gid = Some g \<and> isAnalyzed g \<noteq> a \<longrightarrow>
           isl (fst (update engine ctx' gid ty a w)))) \<and>
     ((\<forall>uid owner bl. uid \<noteq> owner \<longrightarrow> \<not> engine uid USER (Some owner) isOwner bl) \<longrightarrow>
        (\<forall>g. footage_findUnique_id (prisma w) gid = Some g \<and> userId g \<noteq> sId (session ctx') \<longrightarrow>
           isl (fst (get engine ctx' gid w)) \<and> isl (fst (delete engine ctx' gid w)) \<and>
           (isAnalyzed g = a \<longrightarrow> isl (fst (update engine ctx' gid ty a w)))))"
proof -
  have eqs: "get engine ctx' gid w = get engine ctx gid w"
    "getMany ctx' page filterGames w = getMany ctx page filterGames w"
    "create engine getInfo cuid ctx' url ty w = create engine getInfo cuid ctx url ty w"
    "getUsers engine ctx' inputUserId w = getUsers engine ctx inputUserId w"
    "getClips engine ctx' gid w = getClips engine ctx gid w"
    "update engine ctx' gid ty a w = update engine ctx gid ty a w"
    "delete engine ctx' gid w = delete engine ctx gid w"
    "getReviewItems r1 r2 r3 ctx' w = getReviewItems r1 r2 r3 ctx w"
    "review cuid ctx' gid b ty w = review cuid ctx gid b ty w"
    unfolding get_def getMany_def create_def getUsers_def getClips_def update_def
      delete_def getReviewItems_def review_def assms
    by (rule refl)+
  have mod: "isl (fst (getClips engine ctx' gid w)) \<and>
        (\<forall>g. footage_findUnique_id (prisma w) gid = Some g \<and> isAnalyzed g \<noteq> a \<longrightarrow>
           isl (fst (update engine ctx' gid ty a w)))"
    if "\<forall>uid owner bl. \<not> engine uid USER owner roleMod bl"
    using that by (auto simp: getClips_def update_def catchAll_def split: option.splits)
  have own: "isl (fst (get engine ctx' gid w)) \<and> isl (fst (delete engine ctx' gid w)) \<and>
           (isAnalyzed g = a \<longrightarrow> isl (fst (update engine ctx' gid ty a w)))"
    if "\<forall>uid owner bl. uid \<noteq> owner \<longrightarrow> \<not> engine uid USER (Some owner) isOwner bl"
      and "footage_findUnique_id (prisma w) gid = Some g" and "userId g \<noteq> sId (session ctx')"
    for g
  proof -
    have "\<not> gate engine ctx' (Some (userId g)) isOwner"
      using that(1,3) by metis
    with that(2) show ?thesis
      by (simp add: get_def delete_def update_def catchAll_def)
  qed
  from eqs mod own show ?thesis by blast
qed

text \<open>
  The theorem at the moderator of the example and the engine of the spec: she gets
  what a plain user with her id gets, and is denied the clips, the flip and another
  user's submission.
\<close>

theorem role_never_consulted_witness:
  "sId (session (ctxOf carol)) = sId (session (ctxOf (carol\<lparr>uRole := USER\<rparr>))) \<and>
   sBlacklisted (session (ctxOf carol)) = sBlacklisted (session (ctxOf (carol\<lparr>uRole := USER\<rparr>))) \<and>
   sRole (session (ctxOf carol)) = MOD \<and>
   (\<forall>uid owner bl. \<not> hasPerms uid USER owner roleMod bl) \<and>
   footage_findUnique_id (prisma exampleWorld) ''g1'' = Some footageA \<and>
   isAnalyzed footageA \<noteq> True \<and> userId footageA \<noteq> sId (session (ctxOf carol)) \<and>
   get hasPerms (ctxOf carol) ''g1'' exampleWorld =
     get hasPerms (ctxOf (carol\<lparr>uRole := USER\<rparr>)) ''g1'' exampleWorld \<and>
   getClips hasPerms (ctxOf carol) ''g1'' exampleWorld =
     getClips hasPerms (ctxOf (carol\<lparr>uRole := USER\<rparr>)) ''g1'' exampleWorld \<and>
   update hasPerms (ctxOf carol) ''g1'' CSG True exampleWorld =
     update hasPerms (ctxOf (carol\<lparr>uRole := USER\<rparr>)) ''g1'' CSG True exampleWorld \<and>
   delete hasPerms (ctxOf carol) ''g1'' exampleWorld =
     delete hasPerms (ctxOf (carol\<lparr>uRole := USER\<rparr>)) ''g1'' exampleWorld \<and>
   isl (fst (getClips hasPerms (ctxOf carol) ''g1'' exampleWorld)) \<and>
   isl (fst (update hasPerms (ctxOf carol) ''g1'' CSG True exampleWorld)) \<and>
   isl (fst (get hasPerms (ctxOf carol) ''g1'' exampleWorld)) \<and>
   isl (fst (delete hasPerms (ctxOf carol) ''g1'' exampleWorld))"
proof -
  have s: "sId (session (ctxOf carol)) = sId (session (ctxOf (carol\<lparr>uRole := USER\<rparr>)))"
    "sBlacklisted (session (ctxOf carol)) = sBlacklisted (session (ctxOf (carol\<lparr>uRole := USER\<rparr>)))"
    by (simp_all add: ctxOf_def)
  have r: "sRole (session (ctxOf carol)) = MOD"
    by (simp add: ctxOf_def carol_def)
  have m: "\<forall>uid owner bl. \<not> hasPerms uid USER owner roleMod bl"
    by (simp add: hasPerms_def roleRank_def)
  have ow: "\<forall>uid owner bl. uid \<noteq> owner \<longrightarrow> \<not> hasPerms uid USER (Some owner) isOwner bl"
    by (simp add: hasPerms_def roleRank_def)
  have f: "footage_findUnique_id (prisma exampleWorld) ''g1'' = Some footageA"
    "isAnalyzed footageA \<noteq> True" "userId footageA \<noteq> sId (session (ctxOf carol))"
    by (simp_all add: footage_findUnique_id_def example_defs)
  show ?thesis
    using role_never_consulted [OF s, of hasPerms "''g1''" exampleWorld 1 None metadata ids
        "''u''" CSG Null True 0 0 0 True] s r m ow f
    by blast
qed

section \<open>The encoding a create selects\<close>

lemma find_itag:
  "map_option itag (find (\<lambda>format. itag format = k) formats) =
     (if k \<in> itag ` set formats then Some k else None)"
  by (induction formats) auto

lemma find_itag_None: "(find (\<lambda>format. itag format = k) formats = None) = (k \<notin> itag ` set formats)"
  using find_itag [of k formats] by (auto split: if_splits)

lemma defaultFormat_itag:
  "map_option itag (defaultFormat formats) =
     (if 299 \<in> itag ` set formats then Some 299
      else if 298 \<in> itag ` set formats then Some 298 else None)"
  using find_itag [of 299 formats] find_itag [of 298 formats]
  by (auto simp: defaultFormat_def split: option.splits if_splits)

lemma lowFormat_eq:
  "lowFormat formats = (if 136 \<in> itag ` set formats then Some 136 else None)"
  by (simp add: lowFormat_def find_itag_None)

lemma chosenFormat_eq:
  "chosenFormat formats =
     (case map_option itag (defaultFormat formats) of Some i \<Rightarrow> Some i | None \<Rightarrow> lowFormat formats)"
  by (simp add: chosenFormat_def split: option.splits)

lemma chosen_first: "chosenFormat formats = firstAvailable formats"
  unfolding chosenFormat_eq defaultFormat_itag lowFormat_eq
  by (simp add: firstAvailable_def preference_def)

lemma none_acceptable:
  "(defaultFormat formats = None \<and> lowFormat formats = None) = (firstAvailable formats = None)"
proof -
  have "(defaultFormat formats = None) = (map_option itag (defaultFormat formats) = None)"
    by simp
  then show ?thesis
    unfolding defaultFormat_itag lowFormat_eq
    by (simp add: firstAvailable_def preference_def)
qed


lemma find_or_None:
  "(find (\<lambda>g. fId g = i \<or> youtubeUrl g = url) rows = None) =
     (i \<notin> fId ` set rows \<and> find (\<lambda>g. youtubeUrl g = url) rows = None)"
  by (induction rows) auto

lemma prisma_footage_create_ok:
  assumes "cuid (cuids w) \<notin> fId ` set (footage (prisma w))"
    and "footage_findUnique_youtubeUrl (prisma w) url = None"
    and "user_findUnique (prisma w) uid \<noteq> None"
  shows "prisma_footage_create cuid uid url fmt ty w =
     (Inr (newRow (cuid (cuids w)) uid url fmt ty),
      w\<lparr>cuids := Suc (cuids w),
         prisma := (prisma w)\<lparr>footage := footage (prisma w) @ [newRow (cuid (cuids w)) uid url fmt ty]\<rparr>\<rparr>)"
  using assms
  by (auto simp: prisma_footage_create_def Let_def find_or_None newRow_def
      footage_findUnique_youtubeUrl_def)

lemma prisma_footage_create_Inr:
  assumes "prisma_footage_create cuid uid url fmt ty w = (Inr g, w')"
  shows "cuid (cuids w) \<notin> fId ` set (footage (prisma w))"
    and "user_findUnique (prisma w) uid \<noteq> None"
    and "g = newRow (cuid (cuids w)) uid url fmt ty"
    and "w' = w\<lparr>cuids := Suc (cuids w), prisma := (prisma w)\<lparr>footage := footage (prisma w) @ [g]\<rparr>\<rparr>"
  using assms
  by (auto simp: prisma_footage_create_def Let_def find_or_None newRow_def split: if_splits)

text \<open>What create does once the gate and the duplicate test are passed.\<close>

lemma create_fetched:
  assumes "gate engine ctx None isOwner"
    and "footage_findUnique_youtubeUrl (prisma w) url = None"
    and "getInfo url = Inr formats"
  shows "create engine getInfo cuid ctx url ty w =
     (case firstAvailable formats of
        None \<Rightarrow> (Inl (TRPCError BAD_REQUEST ''URL does not provide an acceptable video format.'' None),
                  w\<lparr>ytdlCalls := GetInfo url # ytdlCalls w\<rparr>)
      | Some i \<Rightarrow> prisma_footage_create cuid (sId (session ctx)) url i ty
                    (w\<lparr>ytdlCalls := GetInfo url # ytdlCalls w\<rparr>))"
  using assms
  by (cases "firstAvailable formats")
     (simp_all add: create_def Let_def none_acceptable chosen_first)

lemma create_Inr:
  assumes "create engine getInfo cuid ctx url ty w = (Inr g, w')"
  shows "gate engine ctx None isOwner"
    and "footage_findUnique_youtubeUrl (prisma w) url = None"
    and "\<exists>formats i. getInfo url = Inr formats \<and> firstAvailable formats = Some i \<and>
           prisma_footage_create cuid (sId (session ctx)) url i ty
             (w\<lparr>ytdlCalls := GetInfo url # ytdlCalls w\<rparr>) = (Inr g, w')"
proof -
  show g: "gate engine ctx None isOwner"
    using assms by (auto simp: create_def split: if_splits)
  show u: "footage_findUnique_youtubeUrl (prisma w) url = None"
    using assms by (auto simp: create_def split: if_splits)
  obtain formats where f: "getInfo url = Inr formats"
    using assms g u by (cases "getInfo url") (auto simp: create_def Let_def)
  from create_fetched [where engine = engine and ctx = ctx and cuid = cuid and ty = ty
      and getInfo = getInfo and url = url and w = w and formats = formats, OF g u f] assms
  show "\<exists>formats i. getInfo url = Inr formats \<and> firstAvailable formats = Some i \<and>
           prisma_footage_create cuid (sId (session ctx)) url i ty
             (w\<lparr>ytdlCalls := GetInfo url # ytdlCalls w\<rparr>) = (Inr g, w')"
    using f by (cases "firstAvailable formats") auto
qed

lemma create_duplicate:
  assumes "gate engine ctx None isOwner"
    and "footage_findUnique_youtubeUrl (prisma w) url \<noteq> None"
  shows "create engine getInfo cuid ctx url ty w =
     (Inl (TRPCError BAD_REQUEST ''This youtube url has already been submitted.'' None), w)"
  using assms by (simp add: create_def)

text \<open>The REST endpoint.\<close>

lemma parseClips_ok:
  "parseClips uuid video w =
     (None, w\<lparr>fs := (if existsSync (fs w) ''clips'' then fs w else fs w @ [(''clips'', Dir)]),
               spawned := spawned w @ [(uuid, video)]\<rparr>)"
  by (simp add: parseClips_def mkdirSync_def parentOf_def)

lemma createFootage_fetched:
  assumes "footage_findUnique_youtubeUrl (prisma w) url = None"
    and "getInfo url = Inr formats"
  shows "createFootage getInfo cuid uid url ty w =
     (case firstAvailable formats of
        None \<Rightarrow> (Inl (HttpError 400 (''URL '' @ url @ '' does not provide an acceptable video format.'')),
                  w\<lparr>ytdlCalls := GetInfo url # ytdlCalls w\<rparr>)
      | Some i \<Rightarrow> prisma_footage_create cuid uid url i ty (started cuid url w))"
  using assms
  by (cases "firstAvailable formats")
     (simp_all add: createFootage_def Let_def none_acceptable chosen_first parseClips_ok
        started_def)

lemma createFootage_duplicate:
  assumes "footage_findUnique_youtubeUrl (prisma w) url \<noteq> None"
  shows "createFootage getInfo cuid uid url ty w =
     (Inl (HttpError 400 (''URL '' @ url @ '' has already been submitted.'')), w)"
  using assms by (simp add: createFootage_def)

lemma createFootage_Inr:
  assumes "createFootage getInfo cuid uid url ty w = (Inr g, w')"
  shows "footage_findUnique_youtubeUrl (prisma w) url = None"
    and "\<exists>formats i. getInfo url = Inr formats \<and> firstAvailable formats = Some i \<and>
           prisma_footage_create cuid uid url i ty (started cuid url w) = (Inr g, w')"
proof -
  show u: "footage_findUnique_youtubeUrl (prisma w) url = None"
    using assms by (auto simp: createFootage_def split: if_splits)
  obtain formats where f: "getInfo url = Inr formats"
    using assms u by (cases "getInfo url") (auto simp: createFootage_def Let_def)
  from createFootage_fetched [where cuid = cuid and uid = uid and ty = ty
      and getInfo = getInfo and url = url and w = w and formats = formats, OF u f] assms
  show "\<exists>formats i. getInfo url = Inr formats \<and> firstAvailable formats = Some i \<and>
           prisma_footage_create cuid uid url i ty (started cuid url w) = (Inr g, w')"
    using f by (cases "firstAvailable formats") auto
qed


lemma firstAvailable_primary: "299 \<in> itag ` set formats \<Longrightarrow> firstAvailable formats = Some 299"
  by (simp add: firstAvailable_def preference_def)

lemma create_stores_selected:
  assumes "getInfo url = Inr formats" and "firstAvailable formats = Some i"
    and "create engine getInfo cuid ctx url ty w = (Inr g, w') \<or>
         createFootage getInfo cuid uid url ty w = (Inr g, w')"
  shows "videoFormat g = i"
proof -
  from assms(3) obtain u j w0 where "prisma_footage_create cuid u url j ty w0 = (Inr g, w')"
    and "\<exists>formats. getInfo url = Inr formats \<and> firstAvailable formats = Some j"
    using create_Inr(3) createFootage_Inr(2) by meson
  with assms(1,2) have "prisma_footage_create cuid u url i ty w0 = (Inr g, w')"
    by auto
  from prisma_footage_create_Inr(3) [OF this] show ?thesis
    by (simp add: newRow_def)
qed

text \<open>
  C8. The encoding \<^verbatim>\<open>create\<close> and \<^verbatim>\<open>createFootage\<close> store is the first of 299, 298, 136
  that the metadata offers; with 299 on offer it is 299. When the metadata offers none
  of the three, both fail with their "no acceptable video format" error after the
  fetch and leave the database untouched; when it offers one, a caller the gate lets
  through, whose user row exists, with a fresh identifier, gets the new submission
  with that encoding, and no successful call stores any other.
\<close>

theorem create_selects_first_available:
  assumes "getInfo url = Inr formats"
    and "footage_findUnique_youtubeUrl (prisma w) url = None"
  shows "chosenFormat formats = firstAvailable formats \<and>
    (299 \<in> itag ` set formats \<longrightarrow> firstAvailable formats = Some 299) \<and>
    (firstAvailable formats = None \<longrightarrow>
       (gate engine ctx None isOwner \<longrightarrow>
          create engine getInfo cuid ctx url ty w =
            (Inl (TRPCError BAD_REQUEST ''URL does not provide an acceptable video format.'' None),
             w\<lparr>ytdlCalls := GetInfo url # ytdlCalls w\<rparr>)) \<and>
       createFootage getInfo cuid uid url ty w =
         (Inl (HttpError 400 (''URL '' @ url @ '' does not provide an acceptable video format.'')),
          w\<lparr>ytdlCalls := GetInfo url # ytdlCalls w\<rparr>)) \<and>
    (\<forall>i. firstAvailable formats = Some i \<longrightarrow>
       (gate engine ctx None isOwner \<and> user_findUnique (prisma w) (sId (session ctx)) \<noteq> None \<and>
        cuid (cuids w) \<notin> fId ` set (footage (prisma w)) \<longrightarrow>
          create engine getInfo cuid ctx url ty w =
            (Inr (newRow (cuid (cuids w)) (sId (session ctx)) url i ty),
             w\<lparr>ytdlCalls := GetInfo url # ytdlCalls w, cuids := Suc (cuids w),
                prisma := (prisma w)\<lparr>footage := footage (prisma w) @
                  [newRow (cuid (cuids w)) (sId (session ctx)) url i ty]\<rparr>\<rparr>)) \<and>
       (user_findUnique (prisma w) uid \<noteq> None \<and>
        cuid (Suc (cuids w)) \<notin> fId ` set (footage (prisma w)) \<longrightarrow>
          createFootage getInfo cuid uid url ty w =
            (Inr (newRow (cuid (Suc (cuids w))) uid url i ty),
             (started cuid url w)\<lparr>cuids := Suc (Suc (cuids w)),
                prisma := (prisma w)\<lparr>footage := footage (prisma w) @
                  [newRow (cuid (Suc (cuids w))) uid url i ty]\<rparr>\<rparr>)) \<and>
       (\<forall>g w'. create engine getInfo cuid ctx url ty w = (Inr g, w') \<or>
                createFootage getInfo cuid uid url ty w = (Inr g, w') \<longrightarrow> videoFormat g = i))"
proof -
  note cf = create_fetched [where engine = engine and ctx = ctx and cuid = cuid and ty = ty
      and getInfo = getInfo and url = url and w = w and formats = formats, OF _ assms(2,1)]
  note rf = createFootage_fetched [where cuid = cuid and uid = uid and ty = ty
      and getInfo = getInfo and url = url and w = w and formats = formats, OF assms(2,1)]
  have none: "create engine getInfo cuid ctx url ty w =
            (Inl (TRPCError BAD_REQUEST ''URL does not provide an acceptable video format.'' None),
             w\<lparr>ytdlCalls := GetInfo url # ytdlCalls w\<rparr>)"
    if "firstAvailable formats = None" "gate engine ctx None isOwner"
    using cf [OF that(2)] that(1) by simp
  have noneR: "createFootage getInfo cuid uid url ty w =
         (Inl (HttpError 400 (''URL '' @ url @ '' does not provide an acceptable video format.'')),
          w\<lparr>ytdlCalls := GetInfo url # ytdlCalls w\<rparr>)"
    if "firstAvailable formats = None"
    using rf that by simp
  have some: "create engine getInfo cuid ctx url ty w =
            (Inr (newRow (cuid (cuids w)) (sId (session ctx)) url i ty),
             w\<lparr>ytdlCalls := GetInfo url # ytdlCalls w, cuids := Suc (cuids w),
                prisma := (prisma w)\<lparr>footage := footage (prisma w) @
                  [newRow (cuid (cuids w)) (sId (session ctx)) url i ty]\<rparr>\<rparr>)"
    if "firstAvailable formats = Some i" "gate engine ctx None isOwner"
      "user_findUnique (prisma w) (sId (session ctx)) \<noteq> None"
      "cuid (cuids w) \<notin> fId ` set (footage (prisma w))" for i
  proof -
    have "prisma_footage_create cuid (sId (session ctx)) url i ty
            (w\<lparr>ytdlCalls := GetInfo url # ytdlCalls w\<rparr>) =
          (Inr (newRow (cuid (cuids w)) (sId (session ctx)) url i ty),
             w\<lparr>ytdlCalls := GetInfo url # ytdlCalls w, cuids := Suc (cuids w),
                prisma := (prisma w)\<lparr>footage := footage (prisma w) @
                  [newRow (cuid (cuids w)) (sId (session ctx)) url i ty]\<rparr>\<rparr>)"
      using prisma_footage_create_ok [of cuid "w\<lparr>ytdlCalls := GetInfo url # ytdlCalls w\<rparr>" url
          "sId (session ctx)" i ty] that(3,4) assms(2)
      by simp
    with cf [OF that(2)] that(1) show ?thesis by simp
  qed
  have someR: "createFootage getInfo cuid uid url ty w =
            (Inr (newRow (cuid (Suc (cuids w))) uid url i ty),
             (started cuid url w)\<lparr>cuids := Suc (Suc (cuids w)),
                prisma := (prisma w)\<lparr>footage := footage (prisma w) @
                  [newRow (cuid (Suc (cuids w))) uid url i ty]\<rparr>\<rparr>)"
    if "firstAvailable formats = Some i" "user_findUnique (prisma w) uid \<noteq> None"
      "cuid (Suc (cuids w)) \<notin> fId ` set (footage (prisma w))" for i
  proof -
    have "prisma_footage_create cuid uid url i ty (started cuid url w) =
          (Inr (newRow (cuid (Suc (cuids w))) uid url i ty),
             (started cuid url w)\<lparr>cuids := Suc (Suc (cuids w)),
                prisma := (prisma w)\<lparr>footage := footage (prisma w) @
                  [newRow (cuid (Suc (cuids w))) uid url i ty]\<rparr>\<rparr>)"
      using prisma_footage_create_ok [of cuid "started cuid url w" url uid i ty] that(2,3) assms(2)
      by (simp add: started_def)
    with rf that(1) show ?thesis by simp
  qed
  from chosen_first firstAvailable_primary none noneR some someR
    create_stores_selected [where getInfo = getInfo and url = url and formats = formats
      and engine = engine and cuid = cuid and ctx = ctx and ty = ty and w = w and uid = uid,
      OF assms(1)]
  show ?thesis by blast
qed

text \<open>
  The theorem on metadata that offers 136 and 298 (298 is stored) and on metadata that
  offers neither of the three.
\<close>

theorem create_selects_first_available_witness:
  "metadata ''https://youtu.be/b'' = Inr [\<lparr>itag = 136\<rparr>, \<lparr>itag = 298\<rparr>, \<lparr>itag = 18\<rparr>] \<and>
   unacceptable ''https://youtu.be/b'' = Inr [\<lparr>itag = 18\<rparr>, \<lparr>itag = 22\<rparr>] \<and>
   footage_findUnique_youtubeUrl (prisma exampleWorld) ''https://youtu.be/b'' = None \<and>
   gate notBlacklisted (ctxOf alice) None isOwner \<and>
   firstAvailable [\<lparr>itag = 136\<rparr>, \<lparr>itag = 298\<rparr>, \<lparr>itag = 18\<rparr>] = Some 298 \<and>
   firstAvailable [\<lparr>itag = 18\<rparr>, \<lparr>itag = 22\<rparr>] = None \<and>
   create notBlacklisted metadata ids (ctxOf alice) ''https://youtu.be/b'' CSG exampleWorld =
     (Inr (newRow ''c'' ''alice'' ''https://youtu.be/b'' 298 CSG),
      exampleWorld\<lparr>ytdlCalls := [GetInfo ''https://youtu.be/b''], cuids := 1,
        prisma := exampleDB\<lparr>footage :=
          [footageA, newRow ''c'' ''alice'' ''https://youtu.be/b'' 298 CSG]\<rparr>\<rparr>) \<and>
   fst (createFootage metadata ids ''alice'' ''https://youtu.be/b'' CSG exampleWorld) =
     Inr (newRow ''cx'' ''alice'' ''https://youtu.be/b'' 298 CSG) \<and>
   create notBlacklisted unacceptable ids (ctxOf alice) ''https://youtu.be/b'' CSG exampleWorld =
     (Inl (TRPCError BAD_REQUEST ''URL does not provide an acceptable video format.'' None),
      exampleWorld\<lparr>ytdlCalls := [GetInfo ''https://youtu.be/b'']\<rparr>) \<and>
   createFootage unacceptable ids ''alice'' ''https://youtu.be/b'' CSG exampleWorld =
     (Inl (HttpError 400 ''URL https://youtu.be/b does not provide an acceptable video format.''),
      exampleWorld\<lparr>ytdlCalls := [GetInfo ''https://youtu.be/b'']\<rparr>)"
proof -
  have m: "metadata ''https://youtu.be/b'' = Inr [\<lparr>itag = 136\<rparr>, \<lparr>itag = 298\<rparr>, \<lparr>itag = 18\<rparr>]"
    by (simp add: metadata_def)
  have u: "unacceptable ''https://youtu.be/b'' = Inr [\<lparr>itag = 18\<rparr>, \<lparr>itag = 22\<rparr>]"
    by (simp add: unacceptable_def)
  have new: "footage_findUnique_youtubeUrl (prisma exampleWorld) ''https://youtu.be/b'' = None"
    by (simp add: footage_findUnique_youtubeUrl_def example_defs)
  have g: "gate notBlacklisted (ctxOf alice) None isOwner"
    by (simp add: notBlacklisted_def ctxOf_def alice_def)
  have f1: "firstAvailable [\<lparr>itag = 136\<rparr>, \<lparr>itag = 298\<rparr>, \<lparr>itag = 18\<rparr>] = Some 298"
    by (simp add: firstAvailable_def preference_def)
  have f2: "firstAvailable [\<lparr>itag = 18\<rparr>, \<lparr>itag = 22\<rparr>] = None"
    by (simp add: firstAvailable_def preference_def)
  have ex: "user_findUnique (prisma exampleWorld) (sId (session (ctxOf alice))) \<noteq> None"
    "user_findUnique (prisma exampleWorld) ''alice'' \<noteq> None"
    "ids (cuids exampleWorld) \<notin> fId ` set (footage (prisma exampleWorld))"
    "ids (Suc (cuids exampleWorld)) \<notin> fId ` set (footage (prisma exampleWorld))"
    by (simp_all add: user_findUnique_def ids_def example_defs)
  have v: "ids (cuids exampleWorld) = ''c''" "ids (Suc (cuids exampleWorld)) = ''cx''"
    "sId (session (ctxOf alice)) = ''alice''" "ytdlCalls exampleWorld = []"
    "cuids exampleWorld = 0" "prisma exampleWorld = exampleDB" "footage exampleDB = [footageA]"
    by (simp_all add: ids_def example_defs)
  note t1 = create_selects_first_available [where getInfo = metadata
      and url = "''https://youtu.be/b''" and w = exampleWorld and engine = notBlacklisted
      and ctx = "ctxOf alice" and cuid = ids and ty = CSG and uid = "''alice''", OF m new]
  note t2 = create_selects_first_available [where getInfo = unacceptable
      and url = "''https://youtu.be/b''" and w = exampleWorld and engine = notBlacklisted
      and ctx = "ctxOf alice" and cuid = ids and ty = CSG and uid = "''alice''", OF u new]
  have c1: "create notBlacklisted metadata ids (ctxOf alice) ''https://youtu.be/b'' CSG exampleWorld =
     (Inr (newRow ''c'' ''alice'' ''https://youtu.be/b'' 298 CSG),
      exampleWorld\<lparr>ytdlCalls := [GetInfo ''https://youtu.be/b''], cuids := 1,
        prisma := exampleDB\<lparr>footage :=
          [footageA, newRow ''c'' ''alice'' ''https://youtu.be/b'' 298 CSG]\<rparr>\<rparr>)"
    using t1 f1 g ex v by simp
  have c2: "fst (createFootage metadata ids ''alice'' ''https://youtu.be/b'' CSG exampleWorld) =
     Inr (newRow ''cx'' ''alice'' ''https://youtu.be/b'' 298 CSG)"
    using t1 f1 ex v by simp
  have c3: "create notBlacklisted unacceptable ids (ctxOf alice) ''https://youtu.be/b'' CSG exampleWorld =
     (Inl (TRPCError BAD_REQUEST ''URL does not provide an acceptable video format.'' None),
      exampleWorld\<lparr>ytdlCalls := [GetInfo ''https://youtu.be/b'']\<rparr>)"
    using t2 f2 g v by simp
  have c4: "createFootage unacceptable ids ''alice'' ''https://youtu.be/b'' CSG exampleWorld =
     (Inl (HttpError 400 ''URL https://youtu.be/b does not provide an acceptable video format.''),
      exampleWorld\<lparr>ytdlCalls := [GetInfo ''https://youtu.be/b'']\<rparr>)"
    using t2 f2 v by simp
  from m u new g f1 f2 c1 c2 c3 c4 show ?thesis by simp
qed

section \<open>Duplicate sources\<close>

lemma find_snoc_fresh:
  "i \<notin> fId ` set rows \<Longrightarrow> fId g = i \<Longrightarrow> find (\<lambda>r. fId r = i) (rows @ [g]) = Some g"
  by (induction rows) auto

lemma find_snoc_url:
  "youtubeUrl g = url \<Longrightarrow> find (\<lambda>r. youtubeUrl r = url) (rows @ [g]) \<noteq> None"
  by (induction rows) auto

lemma filter_snoc_fresh:
  "i \<notin> fId ` set rows \<Longrightarrow> fId g = i \<Longrightarrow> filter (\<lambda>r. fId r \<noteq> i) (rows @ [g]) = rows"
  by (induction rows) auto

lemma prisma_footage_delete_ok:
  assumes "footage_findUnique_id (prisma w) i = Some g"
    and "i \<notin> clipFootageId ` set (clip (prisma w))"
  shows "prisma_footage_delete i w =
     (Inr g, w\<lparr>prisma := (prisma w)\<lparr>footage := filter (\<lambda>r. fId r \<noteq> i) (footage (prisma w)),
                  footageVotes := filter (\<lambda>v. footageId v \<noteq> i) (footageVotes (prisma w)),
                  clip := clip (prisma w)\<rparr>\<rparr>)"
  using assms
  by (simp add: prisma_footage_delete_def referencing_def Clip_onDelete_def
      GameplayVotes_onDelete_def Let_def find_None_image)

text \<open>
  The world a successful insert of \<open>g\<close> leaves, and the world after \<open>g\<close> is deleted
  from it again.
\<close>

lemma inserted_then_deleted:
  assumes ins: "prisma_footage_create cuid uid url i ty w0 = (Inr g, w1)"
    and fk: "clipsReferToFootage (prisma w0)"
  shows "footage_findUnique_youtubeUrl (prisma w1) url \<noteq> None"
    and "footage_findUnique_id (prisma w1) (fId g) = Some g"
    and "userId g = uid"
    and "\<exists>w2. prisma_footage_delete (fId g) w1 = (Inr g, w2) \<and>
           footage (prisma w2) = footage (prisma w0) \<and> user (prisma w2) = user (prisma w0) \<and>
           cuids w2 = Suc (cuids w0) \<and> ytdlCalls w2 = ytdlCalls w0"
proof -
  note c = prisma_footage_create_Inr [OF ins]
  have g: "fId g = cuid (cuids w0)" "youtubeUrl g = url" "userId g = uid"
    using c(3) by (simp_all add: newRow_def)
  have w1: "footage (prisma w1) = footage (prisma w0) @ [g]" "clip (prisma w1) = clip (prisma w0)"
    "user (prisma w1) = user (prisma w0)" "cuids w1 = Suc (cuids w0)" "ytdlCalls w1 = ytdlCalls w0"
    using c(4) by simp_all
  show "footage_findUnique_youtubeUrl (prisma w1) url \<noteq> None"
    using find_snoc_url [OF g(2)] by (simp add: footage_findUnique_youtubeUrl_def w1)
  show found: "footage_findUnique_id (prisma w1) (fId g) = Some g"
    using find_snoc_fresh [of "fId g" "footage (prisma w0)" g] c(1) g(1)
    by (simp add: footage_findUnique_id_def w1)
  show "userId g = uid" by (rule g(3))
  have noclip: "fId g \<notin> clipFootageId ` set (clip (prisma w1))"
    using fk c(1) g(1) by (auto simp: clipsReferToFootage_def w1)
  have "filter (\<lambda>r. fId r \<noteq> fId g) (footage (prisma w1)) = footage (prisma w0)"
    using filter_snoc_fresh [of "fId g" "footage (prisma w0)" g] c(1) g(1) by (simp add: w1)
  with prisma_footage_delete_ok [OF found noclip] w1
  show "\<exists>w2. prisma_footage_delete (fId g) w1 = (Inr g, w2) \<and>
           footage (prisma w2) = footage (prisma w0) \<and> user (prisma w2) = user (prisma w0) \<and>
           cuids w2 = Suc (cuids w0) \<and> ytdlCalls w2 = ytdlCalls w0"
    by simp
qed

lemma create_succeeds:
  assumes "gate engine ctx None isOwner"
    and "footage_findUnique_youtubeUrl (prisma w) url = None"
    and "getInfo url = Inr formats" and "firstAvailable formats = Some i"
    and "user_findUnique (prisma w) (sId (session ctx)) \<noteq> None"
    and "cuid (cuids w) \<notin> fId ` set (footage (prisma w))"
  shows "\<exists>g w'. create engine getInfo cuid ctx url ty w = (Inr g, w')"
  using create_fetched [where engine = engine and ctx = ctx and cuid = cuid and ty = ty
      and getInfo = getInfo and url = url and w = w and formats = formats, OF assms(1,2,3)]
    prisma_footage_create_ok [of cuid "w\<lparr>ytdlCalls := GetInfo url # ytdlCalls w\<rparr>" url
      "sId (session ctx)" i ty] assms(2,4,5,6)
  by simp

lemma createFootage_succeeds:
  assumes "footage_findUnique_youtubeUrl (prisma w) url = None"
    and "getInfo url = Inr formats" and "firstAvailable formats = Some i"
    and "user_findUnique (prisma w) uid \<noteq> None"
    and "cuid (Suc (cuids w)) \<notin> fId ` set (footage (prisma w))"
  shows "\<exists>g w'. createFootage getInfo cuid uid url ty w = (Inr g, w')"
  using createFootage_fetched [where cuid = cuid and uid = uid and ty = ty
      and getInfo = getInfo and url = url and w = w and formats = formats, OF assms(1,2)]
    prisma_footage_create_ok [of cuid "started cuid url w" url uid i ty] assms(1,3,4,5)
  by (simp add: started_def)

lemma router_scenario:
  assumes first: "create engine getInfo cuid ctx url ty w = (Inr g, w1)"
    and own: "gate engine ctx (Some (sId (session ctx))) isOwner"
    and fk: "clipsReferToFootage (prisma w)"
    and fresh: "cuid (Suc (cuids w)) \<notin> fId ` set (footage (prisma w))"
  shows "create engine getInfo cuid ctx url ty' w1 =
           (Inl (TRPCError BAD_REQUEST ''This youtube url has already been submitted.'' None), w1) \<and>
         (\<exists>w2. delete engine ctx (fId g) w1 = (Inr (), w2) \<and>
            (\<exists>g' w3. create engine getInfo cuid ctx url ty' w2 = (Inr g', w3)))"
proof -
  note c = create_Inr [OF first]
  from c(3) obtain formats i where f: "getInfo url = Inr formats" "firstAvailable formats = Some i"
    and ins: "prisma_footage_create cuid (sId (session ctx)) url i ty
                (w\<lparr>ytdlCalls := GetInfo url # ytdlCalls w\<rparr>) = (Inr g, w1)"
    by blast
  have fk0: "clipsReferToFootage (prisma (w\<lparr>ytdlCalls := GetInfo url # ytdlCalls w\<rparr>))"
    using fk by simp
  note d = inserted_then_deleted [OF ins fk0]
  from d(4) obtain w2 where del: "prisma_footage_delete (fId g) w1 = (Inr g, w2)"
    and w2: "footage (prisma w2) = footage (prisma w)" "user (prisma w2) = user (prisma w)"
      "cuids w2 = Suc (cuids w)"
    by auto
  have dup: "create engine getInfo cuid ctx url ty' w1 =
           (Inl (TRPCError BAD_REQUEST ''This youtube url has already been submitted.'' None), w1)"
    using create_duplicate [where engine = engine and ctx = ctx, OF c(1) d(1)] .
  have deleted: "delete engine ctx (fId g) w1 = (Inr (), w2)"
    using d(2) d(3) own del by (simp add: delete_def catchAll_def)
  have "user_findUnique (prisma w) (sId (session ctx)) \<noteq> None"
    using prisma_footage_create_Inr(2) [OF ins] by (simp add: user_findUnique_def)
  then have "\<exists>g' w3. create engine getInfo cuid ctx url ty' w2 = (Inr g', w3)"
    using create_succeeds [where engine = engine and ctx = ctx and w = w2 and url = url
        and getInfo = getInfo and formats = formats and i = i and cuid = cuid and ty = ty']
      c(1,2) f w2 fresh
    by (simp add: footage_findUnique_youtubeUrl_def user_findUnique_def)
  with dup deleted show ?thesis by blast
qed

lemma rest_scenario:
  assumes first: "createFootage getInfo cuid uid url ty w = (Inr g, w1)"
    and fk: "clipsReferToFootage (prisma w)"
    and fresh: "cuid (cuids w + 3) \<notin> fId ` set (footage (prisma w))"
  shows "createFootage getInfo cuid uid url ty' w1 =
           (Inl (HttpError 400 (''URL '' @ url @ '' has already been submitted.'')), w1) \<and>
         (\<exists>w2. deleteFootage (fId g) w1 = (Inr ''Footage deleted successfully.'', w2) \<and>
            (\<exists>g' w3. createFootage getInfo cuid uid url ty' w2 = (Inr g', w3)))"
proof -
  note c = createFootage_Inr [OF first]
  from c(2) obtain formats i where f: "getInfo url = Inr formats" "firstAvailable formats = Some i"
    and ins: "prisma_footage_create cuid uid url i ty (started cuid url w) = (Inr g, w1)"
    by blast
  have s: "prisma (started cuid url w) = prisma w" "cuids (started cuid url w) = Suc (cuids w)"
    by (simp_all add: started_def)
  have fk0: "clipsReferToFootage (prisma (started cuid url w))"
    using fk by (simp add: s)
  note d = inserted_then_deleted [OF ins fk0]
  from d(4) obtain w2 where del: "prisma_footage_delete (fId g) w1 = (Inr g, w2)"
    and w2: "footage (prisma w2) = footage (prisma w)" "user (prisma w2) = user (prisma w)"
      "cuids w2 = Suc (Suc (cuids w))"
    by (auto simp: s)
  have dup: "createFootage getInfo cuid uid url ty' w1 =
           (Inl (HttpError 400 (''URL '' @ url @ '' has already been submitted.'')), w1)"
    using createFootage_duplicate [OF d(1)] .
  have deleted: "deleteFootage (fId g) w1 = (Inr ''Footage deleted successfully.'', w2)"
    using del by (simp add: deleteFootage_def)
  have "user_findUnique (prisma w) uid \<noteq> None"
    using prisma_footage_create_Inr(2) [OF ins] by (simp add: user_findUnique_def s)
  moreover have "cuid (Suc (Suc (Suc (cuids w)))) \<notin> fId ` set (footage (prisma w))"
    using fresh by (simp add: numeral_3_eq_3)
  ultimately have "\<exists>g' w3. createFootage getInfo cuid uid url ty' w2 = (Inr g', w3)"
    using createFootage_succeeds [where w = w2 and url = url and getInfo = getInfo
        and formats = formats and i = i and cuid = cuid and ty = ty' and uid = uid]
      c(1) f w2
    by (simp add: footage_findUnique_youtubeUrl_def user_findUnique_def)
  with dup deleted show ?thesis by blast
qed

text \<open>
  C7. A \<^verbatim>\<open>create\<close> (by a caller the gate lets through) or a \<^verbatim>\<open>createFootage\<close> for a url
  that a stored submission has fails with the "already been submitted" error and
  leaves the world as it was, whatever the category and whatever the metadata service
  would answer: nothing is fetched. And when a create has succeeded, a second create
  for the same url is refused, its owner can delete the submission, and after the
  delete a create for the same url succeeds again.
\<close>

theorem duplicate_source_rejected:
  "(footage_findUnique_youtubeUrl (prisma w) url \<noteq> None \<longrightarrow>
      (gate engine ctx None isOwner \<longrightarrow>
         create engine getInfo cuid ctx url ty w =
           (Inl (TRPCError BAD_REQUEST ''This youtube url has already been submitted.'' None), w)) \<and>
      createFootage getInfo cuid uid url ty w =
        (Inl (HttpError 400 (''URL '' @ url @ '' has already been submitted.'')), w)) \<and>
   (create engine getInfo cuid ctx url ty w = (Inr g, w1) \<and>
    gate engine ctx (Some (sId (session ctx))) isOwner \<and> clipsReferToFootage (prisma w) \<and>
    cuid (Suc (cuids w)) \<notin> fId ` set (footage (prisma w)) \<longrightarrow>
      create engine getInfo cuid ctx url ty' w1 =
        (Inl (TRPCError BAD_REQUEST ''This youtube url has already been submitted.'' None), w1) \<and>
      (\<exists>w2. delete engine ctx (fId g) w1 = (Inr (), w2) \<and>
         (\<exists>g' w3. create engine getInfo cuid ctx url ty' w2 = (Inr g', w3)))) \<and>
   (createFootage getInfo cuid uid url ty w = (Inr g, w1) \<and> clipsReferToFootage (prisma w) \<and>
    cuid (cuids w + 3) \<notin> fId ` set (footage (prisma w)) \<longrightarrow>
      createFootage getInfo cuid uid url ty' w1 =
        (Inl (HttpError 400 (''URL '' @ url @ '' has already been submitted.'')), w1) \<and>
      (\<exists>w2. deleteFootage (fId g) w1 = (Inr ''Footage deleted successfully.'', w2) \<and>
         (\<exists>g' w3. createFootage getInfo cuid uid url ty' w2 = (Inr g', w3))))"
  using create_duplicate [where engine = engine and ctx = ctx and w = w and url = url]
    createFootage_duplicate [where w = w and url = url]
    router_scenario [where engine = engine and ctx = ctx and w = w and url = url and g = g
      and ?w1.0 = w1 and getInfo = getInfo and cuid = cuid and ty = ty and ty' = ty']
    rest_scenario [where w = w and url = url and g = g and ?w1.0 = w1 and getInfo = getInfo
      and cuid = cuid and ty = ty and ty' = ty' and uid = uid]
  by blast

text \<open>
  The theorem at the example world: the stored url is refused; a new url is accepted,
  then refused, and accepted again after the delete.
\<close>

theorem duplicate_source_rejected_witness:
  "footage_findUnique_youtubeUrl (prisma exampleWorld) ''https://youtu.be/a'' \<noteq> None \<and>
   gate notBlacklisted (ctxOf alice) None isOwner \<and>
   gate notBlacklisted (ctxOf alice) (Some (sId (session (ctxOf alice)))) isOwner \<and>
   clipsReferToFootage (prisma exampleWorld) \<and>
   ids (Suc (cuids exampleWorld)) \<notin> fId ` set (footage (prisma exampleWorld)) \<and>
   ids (cuids exampleWorld + 3) \<notin> fId ` set (footage (prisma exampleWorld)) \<and>
   create notBlacklisted metadata ids (ctxOf alice) ''https://youtu.be/a'' CSG exampleWorld =
     (Inl (TRPCError BAD_REQUEST ''This youtube url has already been submitted.'' None), exampleWorld) \<and>
   createFootage metadata ids ''alice'' ''https://youtu.be/a'' CSG exampleWorld =
     (Inl (HttpError 400 ''URL https://youtu.be/a has already been submitted.''), exampleWorld) \<and>
   create notBlacklisted metadata ids (ctxOf alice) ''https://youtu.be/b'' VAL exampleWorld =
     (Inr (newRow ''c'' ''alice'' ''https://youtu.be/b'' 298 VAL),
      exampleWorld\<lparr>ytdlCalls := [GetInfo ''https://youtu.be/b''], cuids := 1,
        prisma := exampleDB\<lparr>footage :=
          [footageA, newRow ''c'' ''alice'' ''https://youtu.be/b'' 298 VAL]\<rparr>\<rparr>) \<and>
   create notBlacklisted metadata ids (ctxOf alice) ''https://youtu.be/b'' CSG
       (exampleWorld\<lparr>ytdlCalls := [GetInfo ''https://youtu.be/b''], cuids := 1,
          prisma := exampleDB\<lparr>footage :=
            [footageA, newRow ''c'' ''alice'' ''https://youtu.be/b'' 298 VAL]\<rparr>\<rparr>) =
     (Inl (TRPCError BAD_REQUEST ''This youtube url has already been submitted.'' None),
      exampleWorld\<lparr>ytdlCalls := [GetInfo ''https://youtu.be/b''], cuids := 1,
          prisma := exampleDB\<lparr>footage :=
            [footageA, newRow ''c'' ''alice'' ''https://youtu.be/b'' 298 VAL]\<rparr>\<rparr>) \<and>
   (\<exists>w2. delete notBlacklisted (ctxOf alice) ''c''
            (exampleWorld\<lparr>ytdlCalls := [GetInfo ''https://youtu.be/b''], cuids := 1,
               prisma := exampleDB\<lparr>footage :=
                 [footageA, newRow ''c'' ''alice'' ''https://youtu.be/b'' 298 VAL]\<rparr>\<rparr>) = (Inr (), w2) \<and>
      (\<exists>g' w3. create notBlacklisted metadata ids (ctxOf alice) ''https://youtu.be/b'' CSG w2 =
                  (Inr g', w3))) \<and>
   fst (createFootage metadata ids ''alice'' ''https://youtu.be/b'' VAL exampleWorld) =
     Inr (newRow ''cx'' ''alice'' ''https://youtu.be/b'' 298 VAL) \<and>
   (\<exists>w2. deleteFootage ''cx''
            (snd (createFootage metadata ids ''alice'' ''https://youtu.be/b'' VAL exampleWorld)) =
              (Inr ''Footage deleted successfully.'', w2) \<and>
      (\<exists>g' w3. createFootage metadata ids ''alice'' ''https://youtu.be/b'' CSG w2 = (Inr g', w3)))"
proof -
  let ?a = "''https://youtu.be/a''" and ?b = "''https://youtu.be/b''"
  let ?gB = "newRow ''c'' ''alice'' ?b 298 VAL"
  let ?wB = "exampleWorld\<lparr>ytdlCalls := [GetInfo ?b], cuids := 1,
        prisma := exampleDB\<lparr>footage := [footageA, ?gB]\<rparr>\<rparr>"
  let ?gR = "newRow ''cx'' ''alice'' ?b 298 VAL"
  let ?wR = "snd (createFootage metadata ids ''alice'' ?b VAL exampleWorld)"
  have stored: "footage_findUnique_youtubeUrl (prisma exampleWorld) ?a \<noteq> None"
    by (simp add: footage_findUnique_youtubeUrl_def example_defs)
  have g: "gate notBlacklisted (ctxOf alice) None isOwner"
    "gate notBlacklisted (ctxOf alice) (Some (sId (session (ctxOf alice)))) isOwner"
    by (simp_all add: notBlacklisted_def ctxOf_def alice_def)
  have fk: "clipsReferToFootage (prisma exampleWorld)"
    by (simp add: clipsReferToFootage_def example_defs)
  have fresh: "ids (Suc (cuids exampleWorld)) \<notin> fId ` set (footage (prisma exampleWorld))"
    "ids (cuids exampleWorld + 3) \<notin> fId ` set (footage (prisma exampleWorld))"
    by (simp_all add: ids_def example_defs)
  have first: "create notBlacklisted metadata ids (ctxOf alice) ?b VAL exampleWorld = (Inr ?gB, ?wB)"
    by (simp add: create_def defaultFormat_def lowFormat_def chosenFormat_def metadata_def
        prisma_footage_create_def footage_findUnique_youtubeUrl_def user_findUnique_def
        notBlacklisted_def newRow_def ids_def Let_def example_defs)
  have firstFst: "fst (createFootage metadata ids ''alice'' ?b VAL exampleWorld) = Inr ?gR"
    by (simp add: createFootage_def defaultFormat_def lowFormat_def chosenFormat_def metadata_def
        prisma_footage_create_def footage_findUnique_youtubeUrl_def user_findUnique_def
        parseClips_def existsSync_def writeFile_def newRow_def ids_def Let_def example_defs)
  then have firstR: "createFootage metadata ids ''alice'' ?b VAL exampleWorld = (Inr ?gR, ?wR)"
    by (simp add: prod_eq_iff)
  have ids: "fId ?gB = ''c''" "fId ?gR = ''cx''"
    by (simp_all add: newRow_def)
  note t1 = duplicate_source_rejected [where engine = notBlacklisted and ctx = "ctxOf alice"
      and w = exampleWorld and url = ?a and getInfo = metadata and cuid = ids and ty = CSG
      and uid = "''alice''"]
  note t2 = duplicate_source_rejected [where engine = notBlacklisted and ctx = "ctxOf alice"
      and w = exampleWorld and url = ?b and getInfo = metadata and cuid = ids and ty = VAL
      and ty' = CSG and uid = "''alice''" and g = ?gB and ?w1.0 = ?wB]
  note t3 = duplicate_source_rejected [where engine = notBlacklisted and ctx = "ctxOf alice"
      and w = exampleWorld and url = ?b and getInfo = metadata and cuid = ids and ty = VAL
      and ty' = CSG and uid = "''alice''" and g = ?gR and ?w1.0 = ?wR]
  have d: "create notBlacklisted metadata ids (ctxOf alice) ?a CSG exampleWorld =
     (Inl (TRPCError BAD_REQUEST ''This youtube url has already been submitted.'' None), exampleWorld)"
    "createFootage metadata ids ''alice'' ?a CSG exampleWorld =
     (Inl (HttpError 400 ''URL https://youtu.be/a has already been submitted.''), exampleWorld)"
    using t1 stored g(1) by simp_all
  have r: "create notBlacklisted metadata ids (ctxOf alice) ?b CSG ?wB =
        (Inl (TRPCError BAD_REQUEST ''This youtube url has already been submitted.'' None), ?wB)"
    "\<exists>w2. delete notBlacklisted (ctxOf alice) ''c'' ?wB = (Inr (), w2) \<and>
      (\<exists>g' w3. create notBlacklisted metadata ids (ctxOf alice) ?b CSG w2 = (Inr g', w3))"
    using t2 first g(2) fk fresh(1) ids(1) by simp_all
  have e: "\<exists>w2. deleteFootage ''cx'' ?wR = (Inr ''Footage deleted successfully.'', w2) \<and>
      (\<exists>g' w3. createFootage metadata ids ''alice'' ?b CSG w2 = (Inr g', w3))"
    using t3 firstR fk fresh(2) ids(2) by simp
  from stored g fk fresh d first r firstFst e show ?thesis
    by simp
qed

end
